theory Spec2Isabelle
  imports Main "HOL-Library.Word"
begin

section \<open>Go strings and the error value\<close>

text \<open>
  A Go string is a sequence of bytes, here a \<^typ>\<open>string\<close>; \<open>len\<close> is \<^const>\<open>length\<close>.
  \<open>strings.HasPrefix s p\<close> and \<open>strings.IndexByte s c\<close> (the index of the first \<open>c\<close>,
  or \<open>-1\<close>) are the two library functions the matcher scans with. The slices
  \<open>s[:i]\<close> and \<open>s[i+1:]\<close> are \<open>take (nat i) s\<close> and \<open>drop (nat (i + 1)) s\<close>; the source takes
  them only for \<open>0 < i < len s\<close>, where Go does not panic.
\<close>

definition HasPrefix :: "string \<Rightarrow> string \<Rightarrow> bool" where
  "HasPrefix s p = (take (length p) s = p)"

definition IndexByte :: "string \<Rightarrow> char \<Rightarrow> int" where
  "IndexByte s c = (if c \<in> set s then int (length (takeWhile (\<lambda>x. x \<noteq> c) s)) else - 1)"

text \<open>
  \<open>strings.SplitN s sep n\<close> for a one-byte separator: at most \<open>n\<close> pieces, the last one
  the unsplit rest; no piece at all for \<open>n = 0\<close>.
\<close>

fun SplitN :: "string \<Rightarrow> char \<Rightarrow> nat \<Rightarrow> string list" where
  "SplitN s c 0 = []"
| "SplitN s c (Suc 0) = [s]"
| "SplitN s c (Suc (Suc n)) =
     (if c \<in> set s
      then takeWhile (\<lambda>x. x \<noteq> c) s # SplitN (tl (dropWhile (\<lambda>x. x \<noteq> c) s)) c (Suc n)
      else [s])"

text \<open>
  Modelled from the spec: \<open>NewErrorWithStatusLookup\<close> and the type \<open>GHProxyErrors\<close> are
  declared outside the files at hand; the spec carries an error as the pair
  \<open>Error{status, message}\<close>, and so does this datatype.
\<close>

datatype GHProxyErrors = GHProxyErrors (StatusCode: int) (ErrorMessage: string)

definition NewErrorWithStatusLookup :: "int \<Rightarrow> string \<Rightarrow> GHProxyErrors" where
  "NewErrorWithStatusLookup status msg = GHProxyErrors status msg"

text \<open>The fields of \<open>config.Config\<close> that the matcher and the registry proxy read.
  \<open>Server.SizeLimit\<close> is a Go \<open>int\<close>, 64 bits wide on the platforms the proxy is built for.\<close>

record config =
  Auth_ForceAllowApi :: bool
  Auth_Method :: string
  Auth_Enabled :: bool
  Docker_Enabled :: bool
  Docker_Target :: string
  Server_SizeLimit :: "64 word"
  BandwidthLimit_Enabled :: bool

section \<open>The path matcher (proxy/match.go)\<close>

definition githubPrefix :: string where "githubPrefix = ''https://github.com/''"
definition rawPrefix :: string where "rawPrefix = ''https://raw.githubusercontent.com/''"
definition gistPrefix :: string where "gistPrefix = ''https://gist.github.com/''"
definition gistContentPrefix :: string where
  "gistContentPrefix = ''https://gist.githubusercontent.com/''"
definition apiPrefix :: string where "apiPrefix = ''https://api.github.com/''"
definition releasesDownloadSnippet :: string where
  "releasesDownloadSnippet = ''releases/download/''"

definition githubPrefixLen :: nat where "githubPrefixLen = length githubPrefix"
definition rawPrefixLen :: nat where "rawPrefixLen = length rawPrefix"
definition gistPrefixLen :: nat where "gistPrefixLen = length gistPrefix"
definition gistContentPrefixLen :: nat where "gistContentPrefixLen = length gistContentPrefix"
definition apiPrefixLen :: nat where "apiPrefixLen = length apiPrefix"

text \<open>
  \<open>Matcher\<close> returns \<open>(user, repo, matcher, err)\<close> as the Go function does, the error a
  pointer that is \<open>nil\<close> on success. \<open>match_fail\<close> is the shape of every failing
  \<open>return "", "", "", NewErrorWithStatusLookup(status, msg)\<close>.
\<close>

type_synonym match_result = "string \<times> string \<times> string \<times> GHProxyErrors option"

definition match_fail :: "int \<Rightarrow> string \<Rightarrow> match_result" where
  "match_fail status msg = ('''', '''', '''', Some (NewErrorWithStatusLookup status msg))"

text \<open>
  The branch for \<open>https://github.com/\<close> (match.go, lines 44 to 86). Its
  \<open>switch action\<close> (lines 66 to 85) is \<open>github_switch\<close>, which gets the variables
  the switch reads: \<open>user\<close>, \<open>repo\<close>, the text \<open>remaining\<close> after the repo and \<open>action\<close>.
\<close>

definition github_switch :: "string \<Rightarrow> string \<Rightarrow> string \<Rightarrow> string \<Rightarrow> match_result" where
  "github_switch user repo remaining action =
     (if action = ''releases'' then
        (if HasPrefix remaining releasesDownloadSnippet
         then (user, repo, ''releases'', None)
         else match_fail 400 ''malformed github path: not a releases download url'')
      else if action = ''archive'' then (user, repo, ''releases'', None)
      else if action = ''blob'' then (user, repo, ''blob'', None)
      else if action = ''raw'' then (user, repo, ''raw'', None)
      else if action = ''info'' \<or> action = ''git-upload-pack''
        then (user, repo, ''clone'', None)
      else match_fail 400 (''unsupported github action: '' @ action))"

definition Matcher_github :: "string \<Rightarrow> match_result" where
  "Matcher_github rawPath =
     (let remaining = drop githubPrefixLen rawPath;
          i = IndexByte remaining CHR ''/''
      in if i \<le> 0 then match_fail 400 ''malformed github path: missing user''
         else
           let user = take (nat i) remaining;
               remaining = drop (nat (i + 1)) remaining;
               i = IndexByte remaining CHR ''/''
           in if i \<le> 0 then match_fail 400 ''malformed github path: missing repo''
              else
                let repo = take (nat i) remaining;
                    remaining = drop (nat (i + 1)) remaining
                in if length remaining = 0
                   then match_fail 400 ''malformed github path: missing action''
                   else
                     let i = IndexByte remaining CHR ''/'';
                         action = (if i \<noteq> - 1 then take (nat i) remaining else remaining)
                     in github_switch user repo remaining action)"

text \<open>The branch for \<open>https://raw.githubusercontent.com/\<close> (lines 89 to 110).\<close>

definition Matcher_raw :: "string \<Rightarrow> match_result" where
  "Matcher_raw rawPath =
     (let remaining = drop rawPrefixLen rawPath;
          i = IndexByte remaining CHR ''/''
      in if i \<le> 0 then match_fail 400 ''malformed raw url: missing user''
         else
           let user = take (nat i) remaining;
               remaining = drop (nat (i + 1)) remaining;
               i = IndexByte remaining CHR ''/''
           in if i \<le> 0 then match_fail 400 ''malformed raw url: missing repo''
              else
                let repo = take (nat i) remaining;
                    remaining = drop (nat (i + 1)) remaining
                in if length remaining = 0
                   then match_fail 400 ''malformed raw url: missing branch/commit''
                   else (user, repo, ''raw'', None))"

text \<open>
  The branches for \<open>https://gist.github.com/\<close> (lines 113 to 127) and
  \<open>https://gist.githubusercontent.com/\<close> (lines 130 to 144) are the same text but for
  the length of the prefix they cut off, which is the parameter here.
\<close>

definition Matcher_gist :: "nat \<Rightarrow> string \<Rightarrow> match_result" where
  "Matcher_gist prefixLen rawPath =
     (let remaining = drop prefixLen rawPath;
          i = IndexByte remaining CHR ''/''
      in if i \<le> 0 then
           (if length remaining > 0 then (remaining, '''', ''gist'', None)
            else match_fail 400 ''malformed gist url: missing user'')
         else
           let user = take (nat i) remaining
           in (user, '''', ''gist'', None))"

text \<open>The branch for \<open>https://api.github.com/\<close> (lines 147 to 166).\<close>

definition Matcher_api :: "string \<Rightarrow> config \<Rightarrow> match_result" where
  "Matcher_api rawPath cfg =
     (if \<not> Auth_ForceAllowApi cfg \<and> (Auth_Method cfg \<noteq> ''header'' \<or> \<not> Auth_Enabled cfg)
      then match_fail 403 ''API proxy requires header authentication''
      else
        let remaining = drop apiPrefixLen rawPath
        in if HasPrefix remaining ''repos/'' then
             (let parts = SplitN (drop 6 remaining) CHR ''/'' 3
              in if length parts \<ge> 2 then (parts ! 0, parts ! 1, ''api'', None)
                 else ('''', '''', ''api'', None))
           else if HasPrefix remaining ''users/'' then
             (let parts = SplitN (drop 6 remaining) CHR ''/'' 2
              in if length parts \<ge> 1 then (parts ! 0, '''', ''api'', None)
                 else ('''', '''', ''api'', None))
           else ('''', '''', ''api'', None))"

definition Matcher :: "string \<Rightarrow> config \<Rightarrow> match_result" where
  "Matcher rawPath cfg =
     (if length rawPath < 18 then match_fail 404 ''path too short''
      else if HasPrefix rawPath githubPrefix then Matcher_github rawPath
      else if HasPrefix rawPath rawPrefix then Matcher_raw rawPath
      else if HasPrefix rawPath gistPrefix then Matcher_gist gistPrefixLen rawPath
      else if HasPrefix rawPath gistContentPrefix then Matcher_gist gistContentPrefixLen rawPath
      else if HasPrefix rawPath apiPrefix then Matcher_api rawPath cfg
      else match_fail 404 ''no matcher found for the given path'')"

section \<open>HTTP values, the environment and the state of one request\<close>

text \<open>
  \<open>http.Header\<close> is a Go map from header names to lists of values. The proxy names
  headers only by their canonical spelling (\<open>Host\<close>, \<open>Accept\<close>, \<open>Authorization\<close>,
  \<open>Location\<close>, \<open>Content-Length\<close>, \<open>Www-Authenticate\<close>, \<open>User-Agent\<close>), on which the key
  canonicalisation of \<open>Get\<close> and \<open>Set\<close> is the identity. \<open>Get\<close> gives the first value of a
  key, and the empty string when there is none.
\<close>

type_synonym header = "string \<rightharpoonup> string list"

definition header_Get :: "header \<Rightarrow> string \<Rightarrow> string" where
  "header_Get h key = (case h key of None \<Rightarrow> '''' | Some [] \<Rightarrow> '''' | Some (v # vs) \<Rightarrow> v)"

definition header_Set :: "header \<Rightarrow> string \<Rightarrow> string \<Rightarrow> header" where
  "header_Set h key v = h(key \<mapsto> [v])"

text \<open>An upstream request: method, URL, the query parameters a request builder adds with
  \<open>AddQueryParam\<close>, header and body bytes.\<close>

record request =
  req_Method :: string
  req_URL :: string
  req_Query :: "(string \<times> string) list"
  req_Header :: header
  req_Body :: string

text \<open>
  An upstream response. \<open>resp_Body\<close> is what reading the body to its end gives
  (\<open>iox.ReadAll\<close>): an error or the bytes. \<open>resp_Request_URL\<close> is \<open>resp.Request.URL\<close>, the
  URL of the request that this response answers; \<open>'u\<close> is the type of parsed URLs
  (\<open>*url.URL\<close>).
\<close>

record 'u response =
  resp_StatusCode :: int
  resp_Header :: header
  resp_Body :: "string + string"
  resp_Request_URL :: 'u

text \<open>What the handler reads of the client's request through \<open>touka.Context\<close>.
  \<open>c.Request.UserAgent()\<close> is \<open>c.Request.Header.Get("User-Agent")\<close> in \<open>net/http\<close>.\<close>

record client_request =
  c_Method :: string
  c_Header :: header
  c_RequestURI :: string
  c_RequestURIPath :: string
  c_ReqQueryString :: string
  c_ReqBodyFull :: "string + string"
  c_Param_target :: string
  c_Param_user :: string
  c_Param_repo :: string
  c_Param_filepath :: string

definition c_UserAgent :: "client_request \<Rightarrow> string" where
  "c_UserAgent c = header_Get (c_Header c) ''User-Agent''"

record imageInfo =
  User :: string
  Repo :: string
  Image :: string

text \<open>The result of \<open>parseBearerWWWAuthenticateHeader\<close>: the fields \<open>ChallengeReq\<close> reads.\<close>

record bearer =
  Realm :: string
  Service :: string

text \<open>
  Everything the handler does to the outside world is an event, in the order it happens.
  \<open>Send site req\<close> is a call \<open>ghcrclient.Do(req)\<close> at one of the five places of the source
  that send a request. A call that returns a response is followed by \<open>Opened n\<close>: the body
  of that response is open, and \<open>n\<close>, the number of events before the \<open>Send\<close>, names it.
  \<open>Close n\<close> is \<open>Body.Close()\<close> on that body, \<open>ReadAll n\<close> is \<open>iox.ReadAll\<close> on it. \<open>CachePut\<close>
  is \<open>cache.Put\<close>. The others are the calls that write the client's response: \<open>ErrorPage\<close>,
  \<open>HandleError\<close>, \<open>c.Redirect\<close>, \<open>c.SetHeaders\<close>, \<open>c.Status\<close> and \<open>c.SetBodyStream\<close> (with the
  body it streams, whether the rate-limited reader wraps it, and the announced size).
  Log lines (\<open>Debugf\<close>, \<open>Warnf\<close>, \<open>Errorf\<close>) are not events.
\<close>

datatype call_site = InitialReq | RetryReq | RedirectReq | ChallengeProbe | TokenReq

datatype event =
    Send call_site request
  | Opened nat
  | Close nat
  | ReadAll nat
  | CachePut string string
  | ErrorPage GHProxyErrors
  | HandleError string
  | Redirect int string
  | SetHeaders header
  | Status int
  | SetBodyStream nat bool "64 word"

text \<open>
  Modelled from the spec: the package \<open>weakcache\<close> is not among the files at hand; the
  spec gives its contract, \<open>get(key) -> (token, found)\<close> and \<open>put(key, token)\<close>, with a \<open>put\<close>
  followed by a \<open>get\<close> of the same key returning the token. Within one request the handler
  calls \<open>Get\<close> once and \<open>Put\<close> at most once, so the cache is a map here; expiry and eviction
  between requests are not modelled.
\<close>

record state =
  cache :: "string \<rightharpoonup> string"
  trace :: "event list"

definition emit :: "event \<Rightarrow> state \<Rightarrow> state" where
  "emit e s = s\<lparr>trace := trace s @ [e]\<rparr>"

definition cache_Put :: "string \<Rightarrow> string \<Rightarrow> state \<Rightarrow> state" where
  "cache_Put key v s = s\<lparr>cache := (cache s)(key \<mapsto> v), trace := trace s @ [CachePut key v]\<rparr>"

text \<open>
  The library and the functions of the repository that are declared outside the files at
  hand are parameters of the model, so a theorem holds whatever they do:
  \<^item> \<open>rb_Build method url\<close>: the error, if any, of \<open>NewRequestBuilder(method, url)...Build()\<close>;
    a request built with \<open>NoDefaultHeaders\<close> starts with an empty header;
  \<^item> \<open>http_NewRequest method url\<close>: the error, if any, of \<open>http.NewRequestWithContext\<close>, whose
    request starts with an empty header;
  \<^item> \<open>Do tr req\<close>: what \<open>ghcrclient.Do(req)\<close> returns after the events \<open>tr\<close>, an error or a
    response; the upstream may answer the same request differently each time;
  \<^item> \<open>url_Parse\<close>, \<open>url_IsAbs\<close>, \<open>url_ResolveReference base ref\<close>, \<open>url_String\<close>: package
    \<open>net/url\<close>;
  \<^item> \<open>Atoi\<close>: \<open>strconv.Atoi\<close>, an error or a Go \<open>int\<close> (64 bits);
  \<^item> \<open>parseBearerWWWAuthenticateHeader\<close>: an error or the challenge;
  \<^item> \<open>json_Unmarshal_token body\<close>: \<open>json.Unmarshal(body, &authToken)\<close>, an error or the
    value of \<open>authToken.Token\<close> afterwards;
  \<^item> \<open>copyHeader src dst\<close>: the header \<open>dst\<close> after \<open>copyHeader(src, dst)\<close>.
\<close>

record 'u env =
  rb_Build :: "string \<Rightarrow> string \<Rightarrow> string option"
  http_NewRequest :: "string \<Rightarrow> string \<Rightarrow> string option"
  Do :: "event list \<Rightarrow> request \<Rightarrow> string + 'u response"
  url_Parse :: "string \<Rightarrow> string + 'u"
  url_IsAbs :: "'u \<Rightarrow> bool"
  url_ResolveReference :: "'u \<Rightarrow> 'u \<Rightarrow> 'u"
  url_String :: "'u \<Rightarrow> string"
  Atoi :: "string \<Rightarrow> string + 64 word"
  parseBearerWWWAuthenticateHeader :: "string \<Rightarrow> string + bearer"
  json_Unmarshal_token :: "string \<Rightarrow> string + string"
  copyHeader :: "header \<Rightarrow> header \<Rightarrow> header"

text \<open>\<open>ghcrclient.Do(req)\<close> at the place \<open>site\<close>: the error, or the response with the name of
  its open body.\<close>

definition do_request ::
  "'u env \<Rightarrow> call_site \<Rightarrow> request \<Rightarrow> state \<Rightarrow> (string + nat \<times> 'u response) \<times> state" where
  "do_request E site req s =
     (case Do E (trace s) req of
        Inl err \<Rightarrow> (Inl err, emit (Send site req) s)
      | Inr resp \<Rightarrow>
          (Inr (length (trace s), resp), emit (Opened (length (trace s))) (emit (Send site req) s)))"

section \<open>The challenge resolver (\<open>ChallengeReq\<close>, lines 352 to 424)\<close>

text \<open>
  The result \<open>token\<close> is a named result, the empty string until line 421 assigns it. The two
  deferred \<open>Body.Close()\<close> calls run when the function returns, the later one first.
\<close>

definition req401 :: "string \<Rightarrow> request" where
  "req401 target =
     \<lparr>req_Method = ''GET'', req_URL = ''https://'' @ target @ ''/v2/'', req_Query = [],
      req_Header = header_Set Map.empty ''Host'' target, req_Body = ''''\<rparr>"

definition getAuthReq :: "bearer \<Rightarrow> imageInfo \<Rightarrow> request" where
  "getAuthReq bearer img =
     (let scope = ''repository:'' @ Image img @ '':pull''
      in \<lparr>req_Method = ''GET'', req_URL = Realm bearer,
          req_Query = [(''service'', Service bearer), (''scope'', scope)],
          req_Header = header_Set Map.empty ''Host'' (Service bearer), req_Body = ''''\<rparr>)"

definition ChallengeReq :: "'u env \<Rightarrow> string \<Rightarrow> imageInfo \<Rightarrow> state \<Rightarrow> string \<times> state" where
  "ChallengeReq E target img s =
     (case rb_Build E ''GET'' (''https://'' @ target @ ''/v2/'') of
        Some err \<Rightarrow> ('''', emit (HandleError (''Failed to create request: '' @ err)) s)
      | None \<Rightarrow>
          (case do_request E ChallengeProbe (req401 target) s of
             (Inl err, s1) \<Rightarrow>
               ('''', emit (HandleError (''Failed to send request: '' @ err)) s1)
           | (Inr (id401, resp401), s1) \<Rightarrow>
               (case parseBearerWWWAuthenticateHeader E
                       (header_Get (resp_Header resp401) ''Www-Authenticate'') of
                  Inl err \<Rightarrow> ('''', emit (Close id401) s1)
                | Inr bearer \<Rightarrow>
                    (case rb_Build E ''GET'' (Realm bearer) of
                       Some err \<Rightarrow> ('''', emit (Close id401) s1)
                     | None \<Rightarrow>
                         (case do_request E TokenReq (getAuthReq bearer img) s1 of
                            (Inl err, s2) \<Rightarrow> ('''', emit (Close id401) s2)
                          | (Inr (idAuth, authResp), s2) \<Rightarrow>
                              let s3 = emit (ReadAll idAuth) s2;
                                  closed = (\<lambda>st. emit (Close id401) (emit (Close idAuth) st))
                              in case resp_Body authResp of
                                   Inl err \<Rightarrow> ('''', closed s3)
                                 | Inr bodyBytes \<Rightarrow>
                                     (case json_Unmarshal_token E bodyBytes of
                                        Inl err \<Rightarrow> ('''', closed s3)
                                      | Inr token \<Rightarrow> (token, closed s3)))))))"

text \<open>
  The challenge as the specification words it, for comparison with \<open>ChallengeReq\<close>. Step 1
  issues \<open>GET https://<upstreamHost>/v2/\<close> with \<open>Host\<close> set to the upstream host and no token;
  step 2 parses the \<open>WWW-Authenticate\<close> header of the answer; step 3 computes the scope
  \<open>repository:<image>:pull\<close>; step 4 issues \<open>GET <realm>?service=<service>&scope=<scope>\<close> with
  \<open>Host\<close> set to the service; step 5 decodes the body. Each step may fail, and the empty
  string stands for a failure. \<open>tr\<close> is the trace when the challenge starts; the token
  endpoint is asked after the probe was sent and answered.
\<close>

definition succeeded :: "'e + 'a \<Rightarrow> 'a option" where
  "succeeded r = (case r of Inl err \<Rightarrow> None | Inr x \<Rightarrow> Some x)"

definition built :: "string option \<Rightarrow> unit option" where
  "built r = (case r of Some err \<Rightarrow> None | None \<Rightarrow> Some ())"

definition spec_probe :: "string \<Rightarrow> request" where
  "spec_probe upstreamHost =
     \<lparr>req_Method = ''GET'', req_URL = ''https://'' @ upstreamHost @ ''/v2/'', req_Query = [],
      req_Header = [''Host'' \<mapsto> [upstreamHost]], req_Body = ''''\<rparr>"

definition spec_token_request :: "string \<Rightarrow> string \<Rightarrow> string \<Rightarrow> request" where
  "spec_token_request realm service image_name =
     \<lparr>req_Method = ''GET'', req_URL = realm,
      req_Query = [(''service'', service), (''scope'', ''repository:'' @ image_name @ '':pull'')],
      req_Header = [''Host'' \<mapsto> [service]], req_Body = ''''\<rparr>"

definition challenge_steps :: "'u env \<Rightarrow> string \<Rightarrow> imageInfo \<Rightarrow> event list \<Rightarrow> string option" where
  "challenge_steps E upstreamHost img tr =
     Option.bind (built (rb_Build E ''GET'' (''https://'' @ upstreamHost @ ''/v2/''))) (\<lambda>_.
     Option.bind (succeeded (Do E tr (spec_probe upstreamHost))) (\<lambda>resp401.
     Option.bind (succeeded (parseBearerWWWAuthenticateHeader E
                    (header_Get (resp_Header resp401) ''Www-Authenticate''))) (\<lambda>challenge.
     Option.bind (built (rb_Build E ''GET'' (Realm challenge))) (\<lambda>_.
     Option.bind (succeeded (Do E (tr @ [Send ChallengeProbe (spec_probe upstreamHost),
                                          Opened (length tr)])
                               (spec_token_request (Realm challenge) (Service challenge)
                                  (Image img)))) (\<lambda>authResp.
     Option.bind (succeeded (resp_Body authResp)) (\<lambda>body.
     succeeded (json_Unmarshal_token E body)))))))"

definition challenge_spec :: "'u env \<Rightarrow> string \<Rightarrow> imageInfo \<Rightarrow> event list \<Rightarrow> string" where
  "challenge_spec E upstreamHost img tr =
     (case challenge_steps E upstreamHost img tr of None \<Rightarrow> '''' | Some token \<Rightarrow> token)"

section \<open>The proxy engine (\<open>GhcrRequest\<close>, lines 129 to 344)\<close>

text \<open>The header of the upstream request before any token is attached (lines 158 to 166,
  and again lines 219 to 224 for the retry).\<close>

definition upstream_header :: "'u env \<Rightarrow> client_request \<Rightarrow> string \<Rightarrow> header" where
  "upstream_header E c target =
     (let h = copyHeader E (c_Header c) Map.empty;
          h = (case c_Header c ''Accept'' of Some acceptHeader \<Rightarrow> h(''Accept'' \<mapsto> acceptHeader)
               | None \<Rightarrow> h)
      in header_Set h ''Host'' target)"

text \<open>The initial request (lines 146 to 174): the token of the cache is attached when there
  is an image and the cache has its key. The Go variable \<open>image\<close> is \<open>img\<close> here, and
  \<open>info\<close> where the pointer is known not to be \<open>nil\<close>.\<close>

definition initial_request ::
  "'u env \<Rightarrow> client_request \<Rightarrow> string \<Rightarrow> string \<Rightarrow> imageInfo option \<Rightarrow> string \<Rightarrow> state \<Rightarrow> request" where
  "initial_request E c u bodyByte img target s =
     (let h = upstream_header E c target;
          h = (case img of
                 None \<Rightarrow> h
               | Some info \<Rightarrow>
                   (case cache s (Image info) of
                      Some token \<Rightarrow> header_Set h ''Authorization'' (''Bearer '' @ token)
                    | None \<Rightarrow> h))
      in \<lparr>req_Method = c_Method c, req_URL = u, req_Query = [], req_Header = h,
          req_Body = bodyByte\<rparr>)"

text \<open>The request of the retry (lines 208 to 225).\<close>

definition retry_request ::
  "'u env \<Rightarrow> client_request \<Rightarrow> string \<Rightarrow> string \<Rightarrow> string \<Rightarrow> string \<Rightarrow> request" where
  "retry_request E c u bodyByte target token =
     \<lparr>req_Method = c_Method c, req_URL = u, req_Query = [],
      req_Header = header_Set (upstream_header E c target) ''Authorization'' (''Bearer '' @ token),
      req_Body = bodyByte\<rparr>"

text \<open>
  The steps of \<open>GhcrRequest\<close> after the initial request work on \<open>resp\<close>, the response at
  hand, here with the name of its body. A step gives \<open>None\<close> where the source returns, and
  the response to go on with otherwise. \<open>auth_retry\<close> is lines 184 to 241.
\<close>

definition auth_retry ::
  "'u env \<Rightarrow> client_request \<Rightarrow> string \<Rightarrow> string \<Rightarrow> imageInfo option \<Rightarrow> string \<Rightarrow>
   nat \<times> 'u response \<Rightarrow> state \<Rightarrow> (nat \<times> 'u response) option \<times> state" where
  "auth_retry E c u bodyByte img target resp s =
     (if resp_StatusCode (snd resp) = 401 \<or> resp_StatusCode (snd resp) = 404 then
        let shouldRetry = (c_RequestURIPath c \<noteq> ''/v2/'');
            originalStatusCode = resp_StatusCode (snd resp)
        in if shouldRetry then
             (case img of
                None \<Rightarrow>
                  (None, emit (ErrorPage (NewErrorWithStatusLookup originalStatusCode ''Unauthorized''))
                           (emit (Close (fst resp)) s))
              | Some info \<Rightarrow>
                  (case ChallengeReq E target info s of
                     (token, s1) \<Rightarrow>
                       if token \<noteq> '''' then
                         let s2 = emit (Close (fst resp)) s1;
                             s3 = cache_Put (Image info) token s2
                         in case rb_Build E (c_Method c) u of
                              Some err_retry \<Rightarrow>
                                (None, emit (HandleError
                                   (''Failed to create retry request: '' @ err_retry)) s3)
                            | None \<Rightarrow>
                                (case do_request E RetryReq
                                        (retry_request E c u bodyByte target token) s3 of
                                   (Inl err_retry, s4) \<Rightarrow>
                                     (None, emit (HandleError
                                        (''Failed to send retry request: '' @ err_retry)) s4)
                                 | (Inr resp_retry, s4) \<Rightarrow> (Some resp_retry, s4))
                       else (Some resp, s1)))
           else (Some resp, s)
      else (Some resp, s))"

text \<open>The request that follows a redirect (lines 270 to 275): a \<open>GET\<close> without a body, whose
  only header is the client's \<open>User-Agent\<close>.\<close>

definition redirect_request :: "'u env \<Rightarrow> client_request \<Rightarrow> 'u \<Rightarrow> request" where
  "redirect_request E c redirectURL =
     \<lparr>req_Method = ''GET'', req_URL = url_String E redirectURL, req_Query = [],
      req_Header = header_Set Map.empty ''User-Agent'' (c_UserAgent c), req_Body = ''''\<rparr>"

text \<open>\<open>follow_redirect\<close> is lines 244 to 285.\<close>

definition follow_redirect ::
  "'u env \<Rightarrow> client_request \<Rightarrow> nat \<times> 'u response \<Rightarrow> state \<Rightarrow>
   (nat \<times> 'u response) option \<times> state" where
  "follow_redirect E c resp s =
     (if resp_StatusCode (snd resp) = 302 \<or> resp_StatusCode (snd resp) = 307 then
        let location = header_Get (resp_Header (snd resp)) ''Location''
        in if location = '''' then
             (None, emit (HandleError ''Redirect response missing Location header'')
                      (emit (Close (fst resp)) s))
           else
             (case url_Parse E location of
                Inl err \<Rightarrow>
                  (None, emit (HandleError (''Failed to parse redirect location: '' @ err))
                           (emit (Close (fst resp)) s))
              | Inr parsed \<Rightarrow>
                  let redirectURL =
                        (if \<not> url_IsAbs E parsed
                         then url_ResolveReference E (resp_Request_URL (snd resp)) parsed
                         else parsed);
                      s1 = emit (Close (fst resp)) s
                  in case http_NewRequest E ''GET'' (url_String E redirectURL) of
                       Some err \<Rightarrow>
                         (None, emit (HandleError (''Failed to create redirect request: '' @ err)) s1)
                     | None \<Rightarrow>
                         (case do_request E RedirectReq (redirect_request E c redirectURL) s1 of
                            (Inl err, s2) \<Rightarrow>
                              (None, emit (HandleError
                                 (''Failed to execute redirect request to '' @
                                  url_String E redirectURL @ '': '' @ err)) s2)
                          | (Inr redirectResp, s2) \<Rightarrow> (Some redirectResp, s2)))
      else (Some resp, s))"

text \<open>
  \<open>stream_body\<close> is lines 327 to 343: the header, the status and the body of the upstream
  response go to the client, the body with the size \<open>bodySize\<close> when there is a
  \<open>Content-Length\<close> and with \<open>-1\<close> when there is none. The body stays open: it belongs to
  \<open>SetBodyStream\<close> from here on.
\<close>

definition stream_body ::
  "config \<Rightarrow> nat \<times> 'u response \<Rightarrow> string \<Rightarrow> 64 word \<Rightarrow> state \<Rightarrow> state" where
  "stream_body cfg resp contentLength bodySize s =
     (let s1 = emit (SetHeaders (resp_Header (snd resp))) s;
          s2 = emit (Status (resp_StatusCode (snd resp))) s1;
          limited = BandwidthLimit_Enabled cfg
      in if contentLength \<noteq> '''' then emit (SetBodyStream (fst resp) limited bodySize) s2
         else emit (SetBodyStream (fst resp) limited (- 1)) s2)"

text \<open>
  \<open>finish\<close> is lines 288 to 344. In the branch for status 404 the deferred \<open>Body.Close()\<close>
  runs at the return, after \<open>ErrorPage\<close>. \<open>bodySize\<close> is declared without a value, so it is
  0 when there is no \<open>Content-Length\<close>. The product \<open>SizeLimit * 1024 * 1024\<close> is a product of
  Go \<open>int\<close>s and wraps around as they do.
\<close>

definition finish :: "'u env \<Rightarrow> config \<Rightarrow> nat \<times> 'u response \<Rightarrow> state \<Rightarrow> state" where
  "finish E cfg resp s =
     (if resp_StatusCode (snd resp) = 404 then
        emit (Close (fst resp))
          (emit (ErrorPage (NewErrorWithStatusLookup 404 ''Page Not Found (From Upstream)''))
             (emit (ReadAll (fst resp)) s))
      else
        let sizelimit = Server_SizeLimit cfg * 1024 * 1024;
            contentLength = header_Get (resp_Header (snd resp)) ''Content-Length''
        in if contentLength \<noteq> '''' then
             (case Atoi E contentLength of
                Inl err \<Rightarrow> stream_body cfg resp contentLength (- 1) s
              | Inr bodySize \<Rightarrow>
                  if sizelimit <s bodySize then
                    let finalURL = url_String E (resp_Request_URL (snd resp))
                    in emit (Redirect 301 finalURL) (emit (Close (fst resp)) s)
                  else stream_body cfg resp contentLength bodySize s)
           else stream_body cfg resp contentLength 0 s)"

text \<open>The steps from the redirect on (lines 243 to 344), for the response that the
  initial request or the retry left.\<close>

definition after_auth ::
  "'u env \<Rightarrow> config \<Rightarrow> client_request \<Rightarrow> nat \<times> 'u response \<Rightarrow> state \<Rightarrow> state" where
  "after_auth E cfg c resp s =
     (case follow_redirect E c resp s of
        (None, s1) \<Rightarrow> s1
      | (Some resp1, s1) \<Rightarrow> finish E cfg resp1 s1)"

definition GhcrRequest ::
  "'u env \<Rightarrow> config \<Rightarrow> client_request \<Rightarrow> string \<Rightarrow> imageInfo option \<Rightarrow> string \<Rightarrow> state \<Rightarrow> state" where
  "GhcrRequest E cfg c u img target s =
     (case c_ReqBodyFull c of
        Inl err \<Rightarrow> emit (HandleError (''Failed to read request body: '' @ err)) s
      | Inr bodyByte \<Rightarrow>
          (case rb_Build E (c_Method c) u of
             Some err \<Rightarrow> emit (HandleError (''Failed to create request: '' @ err)) s
           | None \<Rightarrow>
               (case do_request E InitialReq (initial_request E c u bodyByte img target s) s of
                  (Inl err, s1) \<Rightarrow> emit (HandleError (''Failed to send request: '' @ err)) s1
                | (Inr resp, s1) \<Rightarrow>
                    (case auth_retry E c u bodyByte img target resp s1 of
                       (None, s2) \<Rightarrow> s2
                     | (Some resp2, s2) \<Rightarrow> after_auth E cfg c resp2 s2))))"

section \<open>The registry target resolver (lines 44 to 126)\<close>

definition dockerhubTarget :: string where "dockerhubTarget = ''registry-1.docker.io''"
definition ghcrTarget :: string where "ghcrTarget = ''ghcr.io''"

definition HasSuffix :: "string \<Rightarrow> string \<Rightarrow> bool" where
  "HasSuffix s suffix = (length suffix \<le> length s \<and> drop (length s - length suffix) s = suffix)"

text \<open>The loop of lines 65 to 70 over the characters of \<open>reqTarget\<close>: it stops at the first
  \<open>.\<close> with \<open>target = reqTarget\<close>, and leaves \<open>target\<close> empty when there is none. A byte \<open>.\<close>
  is a character \<open>.\<close> of the UTF-8 text and the other way round.\<close>

fun dot_loop :: "string \<Rightarrow> string \<Rightarrow> string" where
  "dot_loop reqTarget [] = ''''"
| "dot_loop reqTarget (r # rs) = (if r = CHR ''.'' then reqTarget else dot_loop reqTarget rs)"

text \<open>The \<open>switch\<close> of \<open>GhcrWithImageRouting\<close> (lines 56 to 71).\<close>

definition route_target :: "string \<Rightarrow> string" where
  "route_target reqTarget =
     (if reqTarget = ''docker.io'' then dockerhubTarget
      else if reqTarget = ''ghcr.io'' then ghcrTarget
      else if HasSuffix reqTarget ''.gcr.io'' \<or> reqTarget = ''gcr.io'' then reqTarget
      else dot_loop reqTarget reqTarget)"

text \<open>The choice of \<open>upstreamTarget\<close> in \<open>GhcrToTarget\<close> (lines 98 to 118): the target when it
  is not empty, the configured default otherwise.\<close>

definition upstream_target :: "config \<Rightarrow> string \<Rightarrow> GHProxyErrors + string" where
  "upstream_target cfg target =
     (if target \<noteq> '''' then Inr target
      else if Docker_Target cfg = ''ghcr'' then Inr ghcrTarget
      else if Docker_Target cfg = ''dockerhub'' then Inr dockerhubTarget
      else if Docker_Target cfg = '''' then
        Inl (NewErrorWithStatusLookup 403 ''Docker Target is not set'')
      else Inr (Docker_Target cfg))"



text \<open>What the claims read off a trace, each in the order of the trace: the places that
  sent a request, the requests sent at one place, the bodies opened and the bodies closed.
  \<open>events_since s s'\<close> are the events of \<open>s'\<close> after those of \<open>s\<close>.\<close>

fun sites :: "event list \<Rightarrow> call_site list" where
  "sites [] = []"
| "sites (Send site req # tr) = site # sites tr"
| "sites (e # tr) = sites tr"

fun requests_at :: "call_site \<Rightarrow> event list \<Rightarrow> request list" where
  "requests_at k [] = []"
| "requests_at k (Send site req # tr) =
     (if site = k then req # requests_at k tr else requests_at k tr)"
| "requests_at k (e # tr) = requests_at k tr"

fun opened_bodies :: "event list \<Rightarrow> nat list" where
  "opened_bodies [] = []"
| "opened_bodies (Opened n # tr) = n # opened_bodies tr"
| "opened_bodies (e # tr) = opened_bodies tr"

fun closed_bodies :: "event list \<Rightarrow> nat list" where
  "closed_bodies [] = []"
| "closed_bodies (Close n # tr) = n # closed_bodies tr"
| "closed_bodies (e # tr) = closed_bodies tr"

definition events_since :: "state \<Rightarrow> state \<Rightarrow> event list" where
  "events_since s s' = drop (length (trace s)) (trace s')"



section \<open>Concrete inputs\<close>

text \<open>A configuration with the registry proxy on, GHCR as the default registry, a
  ceiling of 10 megabytes and no bandwidth limit.\<close>

definition example_config :: config where
  "example_config = \<lparr>Auth_ForceAllowApi = False, Auth_Method = ''header'', Auth_Enabled = True,
     Docker_Enabled = True, Docker_Target = ''ghcr'', Server_SizeLimit = 10,
     BandwidthLimit_Enabled = False\<rparr>"

text \<open>
  An upstream registry at \<open>ghcr.io\<close>, with URLs as strings. It answers the probe of
  \<open>/v2/\<close> with a challenge, gives the token \<open>tok1\<close> at its token endpoint, and wants that
  token everywhere else: with it, a manifest is served with status 200 and twelve bytes,
  and a blob is a redirect to the relative location \<open>/cdn/blob\<close>, which is served without
  a token. The parser of the challenge and the decoder of the token know just what this
  registry sends, and \<open>example_Atoi\<close> knows the two lengths of the examples.
\<close>

definition example_response :: "int \<Rightarrow> header \<Rightarrow> string \<Rightarrow> string \<Rightarrow> string response" where
  "example_response code h body url =
     \<lparr>resp_StatusCode = code, resp_Header = h, resp_Body = Inr body, resp_Request_URL = url\<rparr>"

definition example_Do :: "event list \<Rightarrow> request \<Rightarrow> string + string response" where
  "example_Do tr req =
     (if req_URL req = ''https://ghcr.io/v2/'' then
        Inr (example_response 401
               [''Www-Authenticate'' \<mapsto> [''Bearer realm=https://ghcr.io/token,service=ghcr.io'']]
               '''' (req_URL req))
      else if req_URL req = ''https://ghcr.io/token'' then
        Inr (example_response 200 Map.empty ''tok1'' (req_URL req))
      else if req_URL req = ''https://ghcr.io/cdn/blob'' then
        Inr (example_response 200 [''Content-Length'' \<mapsto> [''12'']] ''hello, world'' (req_URL req))
      else if header_Get (req_Header req) ''Authorization'' \<noteq> ''Bearer tok1'' then
        Inr (example_response 401 Map.empty '''' (req_URL req))
      else if req_URL req = ''https://ghcr.io/v2/octo/cat/manifests/latest'' then
        Inr (example_response 200 [''Content-Length'' \<mapsto> [''12'']] ''hello, world'' (req_URL req))
      else
        Inr (example_response 302 [''Location'' \<mapsto> [''/cdn/blob'']] '''' (req_URL req)))"

definition example_Atoi :: "string \<Rightarrow> string + 64 word" where
  "example_Atoi s =
     (if s = ''12'' then Inr 12
      else if s = ''20971520'' then Inr 20971520
      else Inl ''invalid syntax'')"

definition example_env :: "string env" where
  "example_env =
     \<lparr>rb_Build = (\<lambda>method url. None),
      http_NewRequest = (\<lambda>method url. None),
      Do = example_Do,
      url_Parse = (\<lambda>location. Inr location),
      url_IsAbs = (\<lambda>url. HasPrefix url ''https://''),
      url_ResolveReference = (\<lambda>base ref. ''https://ghcr.io'' @ ref),
      url_String = (\<lambda>url. url),
      Atoi = example_Atoi,
      parseBearerWWWAuthenticateHeader =
        (\<lambda>v. if v = ''Bearer realm=https://ghcr.io/token,service=ghcr.io''
             then Inr \<lparr>Realm = ''https://ghcr.io/token'', Service = ''ghcr.io''\<rparr>
             else Inl ''no bearer challenge''),
      json_Unmarshal_token = (\<lambda>body. if body = '''' then Inl ''unexpected end'' else Inr body),
      copyHeader = (\<lambda>src dst. dst ++ src)\<rparr>"

text \<open>A client that asks for a blob of the image \<open>octo/cat\<close> at \<open>ghcr.io\<close>, and the same
  client asking for a manifest.\<close>

definition example_client :: client_request where
  "example_client =
     \<lparr>c_Method = ''GET'', c_Header = [''User-Agent'' \<mapsto> [''docker/27'']],
      c_RequestURI = ''/v2/ghcr.io/octo/cat/blobs/x'',
      c_RequestURIPath = ''/v2/ghcr.io/octo/cat/blobs/x'', c_ReqQueryString = '''',
      c_ReqBodyFull = Inr '''', c_Param_target = ''ghcr.io'', c_Param_user = ''octo'',
      c_Param_repo = ''cat'', c_Param_filepath = ''/blobs/x''\<rparr>"

definition example_manifest_client :: client_request where
  "example_manifest_client =
     example_client\<lparr>c_RequestURI := ''/v2/ghcr.io/octo/cat/manifests/latest'',
       c_RequestURIPath := ''/v2/ghcr.io/octo/cat/manifests/latest'',
       c_Param_filepath := ''/manifests/latest''\<rparr>"

definition example_image :: imageInfo where
  "example_image = \<lparr>User = ''octo'', Repo = ''cat'', Image = ''octo/cat''\<rparr>"

text \<open>The state before a request, with an empty cache and with a token for \<open>octo/cat\<close>.\<close>

definition example_state :: state where
  "example_state = \<lparr>cache = Map.empty, trace = []\<rparr>"

definition example_state_cached :: state where
  "example_state_cached = \<lparr>cache = [''octo/cat'' \<mapsto> ''tok1''], trace = []\<rparr>"

text \<open>Responses for the last steps: a redirect to a relative location, twenty megabytes
  with a \<open>Content-Length\<close>, and a response without one.\<close>

definition example_redirect :: "string response" where
  "example_redirect =
     example_response 302 [''Location'' \<mapsto> [''/cdn/blob'']] ''''
       ''https://ghcr.io/v2/octo/cat/blobs/x''"

definition example_large :: "string response" where
  "example_large =
     example_response 200 [''Content-Length'' \<mapsto> [''20971520'']] ''(twenty megabytes)''
       ''https://ghcr.io/v2/octo/cat/blobs/large''"

definition example_unsized :: "string response" where
  "example_unsized =
     example_response 200 Map.empty ''(any number of bytes)''
       ''https://ghcr.io/v2/octo/cat/blobs/unsized''"


definition example_manifest_url :: string where
  "example_manifest_url = ''https://ghcr.io/v2/octo/cat/manifests/latest''"


section \<open>Facts about the string functions\<close>

lemma HasPrefix_append: "HasPrefix (p @ s) p"
  by (simp add: HasPrefix_def)

lemma IndexByte_segment: "c \<notin> set a \<Longrightarrow> IndexByte (a @ c # r) c = int (length a)"
  by (induction a) (auto simp: IndexByte_def)

lemma take_IndexByte_nonempty: "0 < IndexByte s c \<Longrightarrow> take (nat (IndexByte s c)) s \<noteq> []"
  by (cases s) (auto simp: IndexByte_def split: if_splits)

lemma HasPrefix_both:
  assumes "HasPrefix s p" and "HasPrefix s q" and "length p \<le> length q"
  shows "take (length p) q = p"
proof -
  have "take (length p) q = take (length p) (take (length q) s)"
    using assms(2) by (simp add: HasPrefix_def)
  also have "\<dots> = take (length p) s"
    using assms(3) by (simp add: min_def)
  finally show ?thesis using assms(1) by (simp add: HasPrefix_def)
qed

lemma prefixes_distinct:
  "HasPrefix s githubPrefix \<Longrightarrow> \<not> HasPrefix s gistPrefix"
  "HasPrefix s githubPrefix \<Longrightarrow> \<not> HasPrefix s gistContentPrefix"
  "HasPrefix s rawPrefix \<Longrightarrow> \<not> HasPrefix s gistPrefix"
  "HasPrefix s rawPrefix \<Longrightarrow> \<not> HasPrefix s gistContentPrefix"
  by (auto dest: HasPrefix_both
      simp: githubPrefix_def rawPrefix_def gistPrefix_def gistContentPrefix_def)

section \<open>The matcher returns all of a result or none of it\<close>

lemma github_switch_fields:
  "u \<noteq> '''' \<Longrightarrow> r \<noteq> '''' \<Longrightarrow>
   (case github_switch u r rem act of (user, repo, matcher, err) \<Rightarrow>
      (err \<noteq> None \<longrightarrow> user = '''' \<and> repo = '''' \<and> matcher = '''') \<and>
      (err = None \<longrightarrow> user \<noteq> '''' \<and> repo \<noteq> '''' \<and> matcher \<noteq> ''''))"
  by (simp add: github_switch_def match_fail_def)

lemma Matcher_github_fields:
  "case Matcher_github rawPath of (user, repo, matcher, err) \<Rightarrow>
      (err \<noteq> None \<longrightarrow> user = '''' \<and> repo = '''' \<and> matcher = '''') \<and>
      (err = None \<longrightarrow> user \<noteq> '''' \<and> repo \<noteq> '''' \<and> matcher \<noteq> '''')"
proof -
  define r0 where "r0 = drop githubPrefixLen rawPath"
  define i0 where "i0 = IndexByte r0 CHR ''/''"
  define r1 where "r1 = drop (nat (i0 + 1)) r0"
  define i1 where "i1 = IndexByte r1 CHR ''/''"
  define r2 where "r2 = drop (nat (i1 + 1)) r1"
  define act where "act = (if IndexByte r2 CHR ''/'' \<noteq> - 1
                           then take (nat (IndexByte r2 CHR ''/'')) r2 else r2)"
  have unfolded: "Matcher_github rawPath =
     (if i0 \<le> 0 then match_fail 400 ''malformed github path: missing user''
      else if i1 \<le> 0 then match_fail 400 ''malformed github path: missing repo''
      else if length r2 = 0 then match_fail 400 ''malformed github path: missing action''
      else github_switch (take (nat i0) r0) (take (nat i1) r1) r2 act)"
    unfolding Matcher_github_def Let_def r0_def i0_def r1_def i1_def r2_def act_def ..
  have user: "take (nat i0) r0 \<noteq> []" if "\<not> i0 \<le> 0"
    using that unfolding i0_def by (intro take_IndexByte_nonempty) simp
  have repo: "take (nat i1) r1 \<noteq> []" if "\<not> i1 \<le> 0"
    using that unfolding i1_def by (intro take_IndexByte_nonempty) simp
  show ?thesis
  proof (cases "i0 \<le> 0 \<or> i1 \<le> 0 \<or> length r2 = 0")
    case True
    then show ?thesis unfolding unfolded by (auto simp: match_fail_def)
  next
    case False
    then have "Matcher_github rawPath = github_switch (take (nat i0) r0) (take (nat i1) r1) r2 act"
      unfolding unfolded by simp
    moreover have "take (nat i0) r0 \<noteq> []" and "take (nat i1) r1 \<noteq> []"
      using False user repo by blast+
    ultimately show ?thesis using github_switch_fields [of "take (nat i0) r0" "take (nat i1) r1" r2 act]
      by simp
  qed
qed

lemma Matcher_raw_fields:
  "case Matcher_raw rawPath of (user, repo, matcher, err) \<Rightarrow>
      (err \<noteq> None \<longrightarrow> user = '''' \<and> repo = '''' \<and> matcher = '''') \<and>
      (err = None \<longrightarrow> user \<noteq> '''' \<and> repo \<noteq> '''' \<and> matcher \<noteq> '''')"
proof -
  define r0 where "r0 = drop rawPrefixLen rawPath"
  define i0 where "i0 = IndexByte r0 CHR ''/''"
  define r1 where "r1 = drop (nat (i0 + 1)) r0"
  define i1 where "i1 = IndexByte r1 CHR ''/''"
  define r2 where "r2 = drop (nat (i1 + 1)) r1"
  have unfolded: "Matcher_raw rawPath =
     (if i0 \<le> 0 then match_fail 400 ''malformed raw url: missing user''
      else if i1 \<le> 0 then match_fail 400 ''malformed raw url: missing repo''
      else if length r2 = 0 then match_fail 400 ''malformed raw url: missing branch/commit''
      else (take (nat i0) r0, take (nat i1) r1, ''raw'', None))"
    unfolding Matcher_raw_def Let_def r0_def i0_def r1_def i1_def r2_def ..
  have user: "take (nat i0) r0 \<noteq> []" if "\<not> i0 \<le> 0"
    using that unfolding i0_def by (intro take_IndexByte_nonempty) simp
  have repo: "take (nat i1) r1 \<noteq> []" if "\<not> i1 \<le> 0"
    using that unfolding i1_def by (intro take_IndexByte_nonempty) simp
  show ?thesis
  proof (cases "i0 \<le> 0 \<or> i1 \<le> 0 \<or> length r2 = 0")
    case True
    then show ?thesis unfolding unfolded by (auto simp: match_fail_def)
  next
    case False
    then have "Matcher_raw rawPath = (take (nat i0) r0, take (nat i1) r1, ''raw'', None)"
      unfolding unfolded by simp
    moreover have "take (nat i0) r0 \<noteq> []" and "take (nat i1) r1 \<noteq> []"
      using False user repo by blast+
    ultimately show ?thesis by simp
  qed
qed

lemma Matcher_gist_fields:
  "case Matcher_gist n rawPath of (user, repo, matcher, err) \<Rightarrow>
      (err \<noteq> None \<longrightarrow> user = '''' \<and> repo = '''' \<and> matcher = '''') \<and>
      (err = None \<longrightarrow> user \<noteq> '''' \<and> matcher \<noteq> '''')"
proof -
  define r0 where "r0 = drop n rawPath"
  define i0 where "i0 = IndexByte r0 CHR ''/''"
  have unfolded: "Matcher_gist n rawPath =
     (if i0 \<le> 0 then
        (if length r0 > 0 then (r0, '''', ''gist'', None)
         else match_fail 400 ''malformed gist url: missing user'')
      else (take (nat i0) r0, '''', ''gist'', None))"
    unfolding Matcher_gist_def Let_def r0_def i0_def ..
  have user: "take (nat i0) r0 \<noteq> []" if "\<not> i0 \<le> 0"
    using that unfolding i0_def by (intro take_IndexByte_nonempty) simp
  show ?thesis
  proof (cases "i0 \<le> 0")
    case True
    then show ?thesis unfolding unfolded by (auto simp: match_fail_def)
  next
    case False
    then have "Matcher_gist n rawPath = (take (nat i0) r0, '''', ''gist'', None)"
      unfolding unfolded by simp
    moreover have "take (nat i0) r0 \<noteq> []" using False user by blast
    ultimately show ?thesis by simp
  qed
qed

lemma Matcher_api_fields:
  "case Matcher_api rawPath cfg of (user, repo, matcher, err) \<Rightarrow>
      (err \<noteq> None \<longrightarrow> user = '''' \<and> repo = '''' \<and> matcher = '''') \<and>
      (err = None \<longrightarrow> matcher \<noteq> '''')"
  unfolding Matcher_api_def Let_def
  by (simp add: match_fail_def)

lemmas Matcher_eval = Matcher_def Matcher_github_def github_switch_def Matcher_raw_def
  Matcher_gist_def Matcher_api_def match_fail_def NewErrorWithStatusLookup_def HasPrefix_def
  IndexByte_def githubPrefix_def rawPrefix_def gistPrefix_def gistContentPrefix_def apiPrefix_def
  releasesDownloadSnippet_def githubPrefixLen_def rawPrefixLen_def gistPrefixLen_def
  gistContentPrefixLen_def apiPrefixLen_def Let_def


section \<open>Claims about the matcher\<close>

text \<open>
  What holds of every input. Whenever \<open>Matcher\<close> returns an error, owner, repo and action
  kind are all the empty string. Whenever it returns no error, the action kind is not
  empty, and neither are the owner and repo under \<open>https://github.com/\<close> and
  \<open>https://raw.githubusercontent.com/\<close> nor the owner under the two gist prefixes. (The API
  prefix asks for no field: \<open>https://api.github.com/zen\<close> succeeds with owner and repo empty.)
\<close>

lemma Matcher_fields_all_or_none:
  assumes "Matcher rawPath cfg = (user, repo, matcher, err)"
  shows "(err \<noteq> None \<longrightarrow> user = '''' \<and> repo = '''' \<and> matcher = '''') \<and>
         (err = None \<longrightarrow> matcher \<noteq> '''' \<and>
            (HasPrefix rawPath githubPrefix \<or> HasPrefix rawPath rawPrefix
               \<longrightarrow> user \<noteq> '''' \<and> repo \<noteq> '''') \<and>
            (HasPrefix rawPath gistPrefix \<or> HasPrefix rawPath gistContentPrefix
               \<longrightarrow> user \<noteq> ''''))"
proof -
  consider (short) "length rawPath < 18"
    | (github) "\<not> length rawPath < 18" "HasPrefix rawPath githubPrefix"
    | (raw) "\<not> length rawPath < 18" "\<not> HasPrefix rawPath githubPrefix" "HasPrefix rawPath rawPrefix"
    | (gist) "\<not> length rawPath < 18" "\<not> HasPrefix rawPath githubPrefix"
        "\<not> HasPrefix rawPath rawPrefix" "HasPrefix rawPath gistPrefix"
    | (gistContent) "\<not> length rawPath < 18" "\<not> HasPrefix rawPath githubPrefix"
        "\<not> HasPrefix rawPath rawPrefix" "\<not> HasPrefix rawPath gistPrefix"
        "HasPrefix rawPath gistContentPrefix"
    | (api) "\<not> length rawPath < 18" "\<not> HasPrefix rawPath githubPrefix"
        "\<not> HasPrefix rawPath rawPrefix" "\<not> HasPrefix rawPath gistPrefix"
        "\<not> HasPrefix rawPath gistContentPrefix" "HasPrefix rawPath apiPrefix"
    | (none) "\<not> length rawPath < 18" "\<not> HasPrefix rawPath githubPrefix"
        "\<not> HasPrefix rawPath rawPrefix" "\<not> HasPrefix rawPath gistPrefix"
        "\<not> HasPrefix rawPath gistContentPrefix" "\<not> HasPrefix rawPath apiPrefix"
    by blast
  then show ?thesis
  proof cases
    case short
    with assms show ?thesis by (auto simp: Matcher_def match_fail_def)
  next
    case github
    with assms have "Matcher_github rawPath = (user, repo, matcher, err)"
      by (simp add: Matcher_def)
    with Matcher_github_fields [of rawPath] github show ?thesis
      by (auto dest: prefixes_distinct)
  next
    case raw
    with assms have "Matcher_raw rawPath = (user, repo, matcher, err)"
      by (simp add: Matcher_def)
    with Matcher_raw_fields [of rawPath] raw show ?thesis
      by (auto dest: prefixes_distinct)
  next
    case gist
    with assms have "Matcher_gist gistPrefixLen rawPath = (user, repo, matcher, err)"
      by (simp add: Matcher_def)
    with Matcher_gist_fields [of gistPrefixLen rawPath] gist show ?thesis by auto
  next
    case gistContent
    with assms have "Matcher_gist gistContentPrefixLen rawPath = (user, repo, matcher, err)"
      by (simp add: Matcher_def)
    with Matcher_gist_fields [of gistContentPrefixLen rawPath] gistContent show ?thesis by auto
  next
    case api
    with assms have "Matcher_api rawPath cfg = (user, repo, matcher, err)"
      by (simp add: Matcher_def)
    with Matcher_api_fields [of rawPath cfg] api show ?thesis by auto
  next
    case none
    with assms show ?thesis by (auto simp: Matcher_def match_fail_def)
  qed
qed

text \<open>
  Claim C6. \<open>Matcher\<close> should never return part of a result: an error comes with three
  empty fields, and a mandatory segment that cannot be parsed gives an error. The first
  half holds of every input, as shown above. The second half fails under the gist
  prefixes. In \<open>https://gist.github.com//abc\<close> the owner segment, the text between the
  prefix and the next slash, is empty, and \<open>Matcher\<close> returns no error, where the branches
  for \<open>https://github.com/\<close> and \<open>https://raw.githubusercontent.com/\<close> answer an empty owner
  segment with status 400. The gist branches test \<open>i <= 0\<close> for the case \<open>i = -1\<close>, which
  lets \<open>i = 0\<close> through.
\<close>

theorem Matcher_unparsed_owner_segment_accepted:
  "HasPrefix ''https://gist.github.com//abc'' gistPrefix \<and>
   takeWhile (\<lambda>c. c \<noteq> CHR ''/'') (drop gistPrefixLen ''https://gist.github.com//abc'') = '''' \<and>
   snd (snd (snd (Matcher ''https://gist.github.com//abc'' cfg))) = None \<and>
   HasPrefix ''https://gist.githubusercontent.com//abc'' gistContentPrefix \<and>
   takeWhile (\<lambda>c. c \<noteq> CHR ''/'')
     (drop gistContentPrefixLen ''https://gist.githubusercontent.com//abc'') = '''' \<and>
   snd (snd (snd (Matcher ''https://gist.githubusercontent.com//abc'' cfg))) = None \<and>
   Matcher ''https://github.com//abc/blob/x'' cfg =
     match_fail 400 ''malformed github path: missing user'' \<and>
   Matcher ''https://raw.githubusercontent.com//abc/main/x'' cfg =
     match_fail 400 ''malformed raw url: missing user''"
  by (simp add: Matcher_eval)

text \<open>
  Claim C7. Under the gist prefixes the owner is mandatory, and a URL whose owner segment
  is empty should be rejected with status 400. The scan tests \<open>i <= 0\<close> where the case it
  describes is \<open>i = -1\<close> (no slash after the owner), so a URL whose owner segment is empty
  (\<open>i = 0\<close>) takes the same branch: \<open>https://gist.github.com//abc\<close> is accepted, with the
  owner \<open>/abc\<close>.
\<close>

theorem Matcher_gist_empty_owner_accepted:
  "Matcher ''https://gist.github.com//abc'' cfg = (''/abc'', '''', ''gist'', None) \<and>
   Matcher ''https://gist.githubusercontent.com//abc'' cfg = (''/abc'', '''', ''gist'', None)"
  by (simp add: Matcher_eval)

lemma github_action_token:
  "(if IndexByte rest CHR ''/'' \<noteq> - 1 then take (nat (IndexByte rest CHR ''/'')) rest else rest)
     = takeWhile (\<lambda>c. c \<noteq> CHR ''/'') rest"
proof (cases "CHR ''/'' \<in> set rest")
  case True
  then show ?thesis
    by (simp add: IndexByte_def takeWhile_eq_take [symmetric] del: takeWhile_eq_take)
next
  case False
  then have "takeWhile (\<lambda>c. c \<noteq> CHR ''/'') rest = rest"
    by (induction rest) auto
  with False show ?thesis by (simp add: IndexByte_def del: takeWhile_eq_all_conv)
qed

lemma Matcher_github_segments:
  assumes "owner \<noteq> ''''" and "CHR ''/'' \<notin> set owner"
      and "repo \<noteq> ''''" and "CHR ''/'' \<notin> set repo"
  shows "Matcher_github (githubPrefix @ owner @ ''/'' @ repo @ ''/'' @ rest) =
     (if rest = '''' then match_fail 400 ''malformed github path: missing action''
      else github_switch owner repo rest (takeWhile (\<lambda>c. c \<noteq> CHR ''/'') rest))"
proof -
  define r1 where "r1 = repo @ CHR ''/'' # rest"
  define r0 where "r0 = owner @ CHR ''/'' # r1"
  have p: "drop githubPrefixLen (githubPrefix @ owner @ ''/'' @ repo @ ''/'' @ rest) = r0"
    by (simp add: githubPrefixLen_def r0_def r1_def)
  have i0: "IndexByte r0 CHR ''/'' = int (length owner)"
    unfolding r0_def using assms(2) by (rule IndexByte_segment)
  have i1: "IndexByte r1 CHR ''/'' = int (length repo)"
    unfolding r1_def using assms(4) by (rule IndexByte_segment)
  have t0: "take (length owner) r0 = owner" and d0: "drop (Suc (length owner)) r0 = r1"
    by (simp_all add: r0_def)
  have t1: "take (length repo) r1 = repo" and d1: "drop (Suc (length repo)) r1 = rest"
    by (simp_all add: r1_def)
  have n: "nat (int k + 1) = Suc k" for k by simp
  show ?thesis
    unfolding Matcher_github_def p Let_def i0 n nat_int t0 d0 i1 t1 d1 github_action_token
    using assms(1,3) by simp
qed

text \<open>
  Claim C8. For \<open>https://github.com/<owner>/<repo>/<rest>\<close> with owner and repo non-empty
  path segments, the action is the text of \<open>rest\<close> up to its first slash, and \<open>Matcher\<close>
  answers: \<open>releases\<close> when the action is \<open>releases\<close> and \<open>rest\<close> starts with
  \<open>releases/download/\<close>, status 400 when the action is \<open>releases\<close> without that snippet;
  \<open>releases\<close> for \<open>archive\<close>; \<open>blob\<close> for \<open>blob\<close>; \<open>raw\<close> for \<open>raw\<close>; \<open>clone\<close> for
  \<open>info\<close> and \<open>git-upload-pack\<close>; status 400 (unsupported action) for every other action,
  and status 400 (missing action) when nothing follows the repo.
\<close>

theorem Matcher_github_action_dispatch:
  assumes "owner \<noteq> ''''" and "CHR ''/'' \<notin> set owner"
      and "repo \<noteq> ''''" and "CHR ''/'' \<notin> set repo"
  shows "Matcher (githubPrefix @ owner @ ''/'' @ repo @ ''/'' @ rest) cfg =
     (let action = takeWhile (\<lambda>c. c \<noteq> CHR ''/'') rest
      in if rest = '''' then match_fail 400 ''malformed github path: missing action''
         else if action = ''releases'' then
           (if HasPrefix rest ''releases/download/'' then (owner, repo, ''releases'', None)
            else match_fail 400 ''malformed github path: not a releases download url'')
         else if action = ''archive'' then (owner, repo, ''releases'', None)
         else if action = ''blob'' then (owner, repo, ''blob'', None)
         else if action = ''raw'' then (owner, repo, ''raw'', None)
         else if action = ''info'' \<or> action = ''git-upload-pack''
           then (owner, repo, ''clone'', None)
         else match_fail 400 (''unsupported github action: '' @ action))"
proof -
  let ?p = "githubPrefix @ owner @ ''/'' @ repo @ ''/'' @ rest"
  have "\<not> length ?p < 18" by (simp add: githubPrefix_def)
  moreover have "HasPrefix ?p githubPrefix" by (rule HasPrefix_append)
  ultimately have "Matcher ?p cfg = Matcher_github ?p"
    by (simp add: Matcher_def)
  then show ?thesis
    unfolding Matcher_github_segments [OF assms]
    by (simp add: github_switch_def releasesDownloadSnippet_def Let_def)
qed

theorem Matcher_github_action_dispatch_witness:
  "Matcher ''https://github.com/octo/cat/releases/download/v1/a.zip'' example_config
     = (''octo'', ''cat'', ''releases'', None) \<and>
   Matcher ''https://github.com/octo/cat/releases/tag/v1'' example_config
     = match_fail 400 ''malformed github path: not a releases download url'' \<and>
   Matcher ''https://github.com/octo/cat/archive/main.zip'' example_config
     = (''octo'', ''cat'', ''releases'', None) \<and>
   Matcher ''https://github.com/octo/cat/info/refs'' example_config
     = (''octo'', ''cat'', ''clone'', None) \<and>
   Matcher ''https://github.com/octo/cat/issues/1'' example_config
     = match_fail 400 ''unsupported github action: issues''"
  using Matcher_github_action_dispatch [of "''octo''" "''cat''" "''releases/download/v1/a.zip''" example_config]
    Matcher_github_action_dispatch [of "''octo''" "''cat''" "''releases/tag/v1''" example_config]
    Matcher_github_action_dispatch [of "''octo''" "''cat''" "''archive/main.zip''" example_config]
    Matcher_github_action_dispatch [of "''octo''" "''cat''" "''info/refs''" example_config]
    Matcher_github_action_dispatch [of "''octo''" "''cat''" "''issues/1''" example_config]
  by (simp add: githubPrefix_def HasPrefix_def)


section \<open>Claims about the registry target resolver\<close>

lemma dot_loop_eq: "dot_loop t rs = (if CHR ''.'' \<in> set rs then t else '''')"
  by (induction rs) auto

lemma HasSuffix_nonempty: "HasSuffix s suffix \<Longrightarrow> suffix \<noteq> '''' \<Longrightarrow> s \<noteq> ''''"
  by (auto simp: HasSuffix_def)

text \<open>
  Claim C4, as the code has it. The target of the route goes through the table of
  \<open>GhcrWithImageRouting\<close> and the result through the choice of \<open>GhcrToTarget\<close>. A target that
  is \<open>docker.io\<close>, \<open>ghcr.io\<close>, \<open>gcr.io\<close>, ends in \<open>.gcr.io\<close> or contains a \<open>.\<close> decides the
  upstream host by itself: \<open>registry-1.docker.io\<close>, \<open>ghcr.io\<close>, or the target unchanged. Every
  other target, the empty one and also a non-empty one without a \<open>.\<close>, leaves the choice to
  the configured default: \<open>ghcr\<close> and \<open>dockerhub\<close> are aliases, any other non-empty default
  is the host, and an empty default is the error 403.
\<close>

theorem upstream_target_table:
  "upstream_target cfg (route_target reqTarget) =
     (if reqTarget = ''docker.io'' then Inr ''registry-1.docker.io''
      else if reqTarget = ''ghcr.io'' then Inr ''ghcr.io''
      else if reqTarget = ''gcr.io'' \<or> HasSuffix reqTarget ''.gcr.io'' then Inr reqTarget
      else if CHR ''.'' \<in> set reqTarget then Inr reqTarget
      else if Docker_Target cfg = ''ghcr'' then Inr ''ghcr.io''
      else if Docker_Target cfg = ''dockerhub'' then Inr ''registry-1.docker.io''
      else if Docker_Target cfg = '''' then
        Inl (NewErrorWithStatusLookup 403 ''Docker Target is not set'')
      else Inr (Docker_Target cfg))"
proof -
  have suffix: "reqTarget \<noteq> ''''" if "HasSuffix reqTarget ''.gcr.io''"
    using HasSuffix_nonempty [OF that] by simp
  have dot: "reqTarget \<noteq> ''''" if "CHR ''.'' \<in> set reqTarget"
    using that by auto
  show ?thesis
    using suffix dot
    by (auto simp: upstream_target_def route_target_def dot_loop_eq dockerhubTarget_def
        ghcrTarget_def)
qed

text \<open>
  The claim as it was stated lets every non-empty target decide without the configured
  default. The target \<open>library\<close> is not empty and has no \<open>.\<close>: the table gives it the empty
  target, and the upstream host is then the default's, \<open>ghcr.io\<close> under one configuration
  and \<open>registry-1.docker.io\<close> under another.
\<close>

theorem explicit_target_without_dot_takes_default:
  "route_target ''library'' = '''' \<and>
   upstream_target (example_config\<lparr>Docker_Target := ''ghcr''\<rparr>) (route_target ''library'')
     = Inr ''ghcr.io'' \<and>
   upstream_target (example_config\<lparr>Docker_Target := ''dockerhub''\<rparr>) (route_target ''library'')
     = Inr ''registry-1.docker.io''"
  by (simp add: upstream_target_def route_target_def HasSuffix_def dockerhubTarget_def
      ghcrTarget_def example_config_def)


text \<open>The definitions that evaluate a run on the concrete inputs.\<close>

lemmas example_defs = example_config_def example_env_def example_Do_def example_Atoi_def
  example_response_def example_client_def example_manifest_client_def example_image_def
  example_state_def example_state_cached_def example_redirect_def example_large_def
  example_unsized_def



section \<open>Facts about the steps of the engine\<close>

lemma trace_emit: "trace (emit e s) = trace s @ [e]"
  by (simp add: emit_def)

lemma cache_emit: "cache (emit e s) = cache s"
  by (simp add: emit_def)

lemma opened_bodies_append: "opened_bodies (xs @ ys) = opened_bodies xs @ opened_bodies ys"
  by (induction xs rule: opened_bodies.induct) simp_all

lemma closed_bodies_append: "closed_bodies (xs @ ys) = closed_bodies xs @ closed_bodies ys"
  by (induction xs rule: closed_bodies.induct) simp_all

lemma sites_append: "sites (xs @ ys) = sites xs @ sites ys"
  by (induction xs rule: sites.induct) simp_all

lemma ChallengeReq_refines_spec:
  "fst (ChallengeReq E target img s) = challenge_spec E target img (trace s)"
  by (simp add: ChallengeReq_def challenge_spec_def challenge_steps_def do_request_def
      req401_def getAuthReq_def spec_probe_def spec_token_request_def header_Set_def
      succeeded_def built_def trace_emit Let_def
      split: option.split sum.split prod.split)

lemma ChallengeReq_trace:
  "\<exists>new. trace (snd (ChallengeReq E target img s)) = trace s @ new \<and>
         closed_bodies new = rev (opened_bodies new) \<and>
         set (sites new) \<subseteq> {ChallengeProbe, TokenReq}"
  by (simp add: ChallengeReq_def do_request_def trace_emit Let_def
      split: option.split sum.split prod.split)

lemma ChallengeReq_cache: "cache (snd (ChallengeReq E target img s)) = cache s"
  by (simp add: ChallengeReq_def do_request_def cache_emit Let_def
      split: option.split sum.split prod.split)

text \<open>\<open>ChallengeReq\<close> branch by branch, with the two requests written out. \<open>n\<close> is the
  number of events before the call, which names the body of the probe's answer; the body
  of the token endpoint's answer is \<open>n + 2\<close>.\<close>

lemma ChallengeReq_build_failed:
  assumes "rb_Build E ''GET'' (''https://'' @ target @ ''/v2/'') = Some err"
  shows "ChallengeReq E target img s =
           ('''', s\<lparr>trace := trace s @ [HandleError (''Failed to create request: '' @ err)]\<rparr>)"
  using assms by (simp add: ChallengeReq_def emit_def)

lemma ChallengeReq_probe_failed:
  assumes "rb_Build E ''GET'' (''https://'' @ target @ ''/v2/'') = None"
      and "probe = \<lparr>req_Method = ''GET'', req_URL = ''https://'' @ target @ ''/v2/'',
                     req_Query = [], req_Header = [''Host'' \<mapsto> [target]], req_Body = ''''\<rparr>"
      and "Do E (trace s) probe = Inl err"
  shows "ChallengeReq E target img s =
           ('''', s\<lparr>trace := trace s @
              [Send ChallengeProbe probe, HandleError (''Failed to send request: '' @ err)]\<rparr>)"
  using assms
  by (simp add: ChallengeReq_def do_request_def req401_def header_Set_def emit_def)

lemma ChallengeReq_no_challenge:
  assumes "rb_Build E ''GET'' (''https://'' @ target @ ''/v2/'') = None"
      and "probe = \<lparr>req_Method = ''GET'', req_URL = ''https://'' @ target @ ''/v2/'',
                     req_Query = [], req_Header = [''Host'' \<mapsto> [target]], req_Body = ''''\<rparr>"
      and "Do E (trace s) probe = Inr resp401"
      and "parseBearerWWWAuthenticateHeader E
             (header_Get (resp_Header resp401) ''Www-Authenticate'') = Inl err"
  shows "ChallengeReq E target img s =
           ('''', s\<lparr>trace := trace s @
              [Send ChallengeProbe probe, Opened (length (trace s)), Close (length (trace s))]\<rparr>)"
  using assms
  by (simp add: ChallengeReq_def do_request_def req401_def header_Set_def emit_def)

lemma ChallengeReq_token_build_failed:
  assumes "rb_Build E ''GET'' (''https://'' @ target @ ''/v2/'') = None"
      and "probe = \<lparr>req_Method = ''GET'', req_URL = ''https://'' @ target @ ''/v2/'',
                     req_Query = [], req_Header = [''Host'' \<mapsto> [target]], req_Body = ''''\<rparr>"
      and "Do E (trace s) probe = Inr resp401"
      and "parseBearerWWWAuthenticateHeader E
             (header_Get (resp_Header resp401) ''Www-Authenticate'') = Inr b"
      and "rb_Build E ''GET'' (Realm b) = Some err"
  shows "ChallengeReq E target img s =
           ('''', s\<lparr>trace := trace s @
              [Send ChallengeProbe probe, Opened (length (trace s)), Close (length (trace s))]\<rparr>)"
  using assms
  by (simp add: ChallengeReq_def do_request_def req401_def header_Set_def emit_def)

lemma ChallengeReq_token_send_failed:
  assumes "rb_Build E ''GET'' (''https://'' @ target @ ''/v2/'') = None"
      and "probe = \<lparr>req_Method = ''GET'', req_URL = ''https://'' @ target @ ''/v2/'',
                     req_Query = [], req_Header = [''Host'' \<mapsto> [target]], req_Body = ''''\<rparr>"
      and "Do E (trace s) probe = Inr resp401"
      and "parseBearerWWWAuthenticateHeader E
             (header_Get (resp_Header resp401) ''Www-Authenticate'') = Inr b"
      and "rb_Build E ''GET'' (Realm b) = None"
      and "tokenReq = \<lparr>req_Method = ''GET'', req_URL = Realm b,
                        req_Query = [(''service'', Service b),
                                     (''scope'', ''repository:'' @ Image img @ '':pull'')],
                        req_Header = [''Host'' \<mapsto> [Service b]], req_Body = ''''\<rparr>"
      and "Do E (trace s @ [Send ChallengeProbe probe, Opened (length (trace s))]) tokenReq
             = Inl err"
  shows "ChallengeReq E target img s =
           ('''', s\<lparr>trace := trace s @
              [Send ChallengeProbe probe, Opened (length (trace s)), Send TokenReq tokenReq,
               Close (length (trace s))]\<rparr>)"
  using assms
  by (simp add: ChallengeReq_def do_request_def req401_def getAuthReq_def header_Set_def
      emit_def Let_def)

lemma ChallengeReq_token_answered:
  assumes "rb_Build E ''GET'' (''https://'' @ target @ ''/v2/'') = None"
      and "probe = \<lparr>req_Method = ''GET'', req_URL = ''https://'' @ target @ ''/v2/'',
                     req_Query = [], req_Header = [''Host'' \<mapsto> [target]], req_Body = ''''\<rparr>"
      and "Do E (trace s) probe = Inr resp401"
      and "parseBearerWWWAuthenticateHeader E
             (header_Get (resp_Header resp401) ''Www-Authenticate'') = Inr b"
      and "rb_Build E ''GET'' (Realm b) = None"
      and "tokenReq = \<lparr>req_Method = ''GET'', req_URL = Realm b,
                        req_Query = [(''service'', Service b),
                                     (''scope'', ''repository:'' @ Image img @ '':pull'')],
                        req_Header = [''Host'' \<mapsto> [Service b]], req_Body = ''''\<rparr>"
      and "Do E (trace s @ [Send ChallengeProbe probe, Opened (length (trace s))]) tokenReq
             = Inr authResp"
  shows "ChallengeReq E target img s =
           (case resp_Body authResp of
              Inl err \<Rightarrow> ''''
            | Inr body \<Rightarrow>
                (case json_Unmarshal_token E body of Inl err \<Rightarrow> '''' | Inr token \<Rightarrow> token),
            s\<lparr>trace := trace s @
              [Send ChallengeProbe probe, Opened (length (trace s)), Send TokenReq tokenReq,
               Opened (length (trace s) + 2), ReadAll (length (trace s) + 2),
               Close (length (trace s) + 2), Close (length (trace s))]\<rparr>)"
  using assms
  by (simp add: ChallengeReq_def do_request_def req401_def getAuthReq_def header_Set_def
      emit_def Let_def split: sum.split)

lemma ChallengeReq_bodies:
  "closed_bodies (events_since s (snd (ChallengeReq E target img s))) =
     rev (opened_bodies (events_since s (snd (ChallengeReq E target img s))))"
  using ChallengeReq_trace [of E target img s] by (auto simp: events_since_def)

lemma state_emit2: "emit b (emit a s) = s\<lparr>trace := trace s @ [a, b]\<rparr>"
  by (simp add: emit_def)

lemma state_emit3: "emit c (emit b (emit a s)) = s\<lparr>trace := trace s @ [a, b, c]\<rparr>"
  by (simp add: emit_def)

lemma stream_body_events:
  "stream_body cfg (n, r) contentLength bodySize s =
     s\<lparr>trace := trace s @ [SetHeaders (resp_Header r), Status (resp_StatusCode r),
        SetBodyStream n (BandwidthLimit_Enabled cfg)
          (if contentLength \<noteq> '''' then bodySize else - 1)]\<rparr>"
  by (simp add: stream_body_def emit_def)

lemma sizelimit_no_overflow:
  fixes x :: "64 word"
  assumes "0 \<le> sint x" and "sint x < 2 ^ 43"
  shows "sint (x * 1024 * 1024) = sint x * 1024 * 1024"
proof -
  have "sint (x * 1024 * 1024) = signed_take_bit 63 (sint x * 1048576)"
    by (simp add: sint_word_ariths mult.commute)
  also have "\<dots> = sint x * 1048576"
    using assms by (intro signed_take_bit_int_eq_self) auto
  finally show ?thesis by simp
qed

lemma finish_unparsable:
  assumes "resp_StatusCode r \<noteq> 404"
      and "header_Get (resp_Header r) ''Content-Length'' \<noteq> ''''"
      and "Atoi E (header_Get (resp_Header r) ''Content-Length'') = Inl err"
  shows "finish E cfg (n, r) s =
           s\<lparr>trace := trace s @ [SetHeaders (resp_Header r), Status (resp_StatusCode r),
              SetBodyStream n (BandwidthLimit_Enabled cfg) (- 1)]\<rparr>"
  using assms by (simp add: finish_def stream_body_events Let_def)

lemma finish_too_large:
  assumes "resp_StatusCode r \<noteq> 404"
      and "header_Get (resp_Header r) ''Content-Length'' \<noteq> ''''"
      and "Atoi E (header_Get (resp_Header r) ''Content-Length'') = Inr bodySize"
      and "Server_SizeLimit cfg * 1024 * 1024 <s bodySize"
  shows "finish E cfg (n, r) s =
           s\<lparr>trace := trace s @ [Close n, Redirect 301 (url_String E (resp_Request_URL r))]\<rparr>"
  using assms by (simp add: finish_def state_emit2 Let_def)

lemma finish_within_limit:
  assumes "resp_StatusCode r \<noteq> 404"
      and "header_Get (resp_Header r) ''Content-Length'' \<noteq> ''''"
      and "Atoi E (header_Get (resp_Header r) ''Content-Length'') = Inr bodySize"
      and "\<not> Server_SizeLimit cfg * 1024 * 1024 <s bodySize"
  shows "finish E cfg (n, r) s =
           s\<lparr>trace := trace s @ [SetHeaders (resp_Header r), Status (resp_StatusCode r),
              SetBodyStream n (BandwidthLimit_Enabled cfg) bodySize]\<rparr>"
  using assms by (simp add: finish_def stream_body_events Let_def)

lemma finish_no_Content_Length:
  assumes "resp_StatusCode r \<noteq> 404"
      and "header_Get (resp_Header r) ''Content-Length'' = ''''"
  shows "finish E cfg (n, r) s =
           s\<lparr>trace := trace s @ [SetHeaders (resp_Header r), Status (resp_StatusCode r),
              SetBodyStream n (BandwidthLimit_Enabled cfg) (- 1)]\<rparr>"
  using assms by (simp add: finish_def stream_body_events Let_def)

lemma finish_not_found:
  assumes "resp_StatusCode r = 404"
  shows "finish E cfg (n, r) s =
           s\<lparr>trace := trace s @ [ReadAll n,
              ErrorPage (NewErrorWithStatusLookup 404 ''Page Not Found (From Upstream)''),
              Close n]\<rparr>"
  using assms by (simp add: finish_def state_emit3)

lemma header_Get_absent: "h key = None \<Longrightarrow> header_Get h key = ''''"
  by (simp add: header_Get_def)

lemma finish_Redirect_only_if:
  assumes "resp_StatusCode r \<noteq> 404"
      and "Redirect code url \<in> set (drop (length (trace s)) (trace (finish E cfg (n, r) s)))"
  shows "\<exists>bodySize. header_Get (resp_Header r) ''Content-Length'' \<noteq> '''' \<and>
           Atoi E (header_Get (resp_Header r) ''Content-Length'') = Inr bodySize \<and>
           Server_SizeLimit cfg * 1024 * 1024 <s bodySize"
proof (cases "header_Get (resp_Header r) ''Content-Length'' = ''''")
  case True
  from finish_no_Content_Length [OF assms(1) True, of E cfg n s] assms(2)
  show ?thesis by simp
next
  case present: False
  show ?thesis
  proof (cases "Atoi E (header_Get (resp_Header r) ''Content-Length'')")
    case (Inl err)
    from finish_unparsable [OF assms(1) present Inl, of cfg n s] assms(2)
    show ?thesis by simp
  next
    case (Inr bodySize)
    show ?thesis
    proof (cases "Server_SizeLimit cfg * 1024 * 1024 <s bodySize")
      case True
      with present Inr show ?thesis by simp
    next
      case False
      from finish_within_limit [OF assms(1) present Inr False, of n s] assms(2)
      show ?thesis by simp
    qed
  qed
qed

lemma events_since_append: "trace s' = trace s @ new \<Longrightarrow> events_since s s' = new"
  by (simp add: events_since_def)

lemma requests_at_append: "requests_at k (xs @ ys) = requests_at k xs @ requests_at k ys"
  by (induction k xs rule: requests_at.induct) simp_all

lemma requests_at_no_site: "k \<notin> set (sites tr) \<Longrightarrow> requests_at k tr = []"
  by (induction k tr rule: requests_at.induct) auto

lemma finish_trace:
  "\<exists>new. trace (finish E cfg resp s) = trace s @ new \<and> sites new = []"
  by (cases resp)
     (simp add: finish_def stream_body_def emit_def Let_def split: sum.split)


lemma follow_redirect_no_redirect:
  assumes "resp_StatusCode r \<noteq> 302" and "resp_StatusCode r \<noteq> 307"
  shows "follow_redirect E c (n, r) s = (Some (n, r), s)"
  using assms by (simp add: follow_redirect_def)

lemma follow_redirect_missing_Location:
  assumes "resp_StatusCode r = 302 \<or> resp_StatusCode r = 307"
      and "header_Get (resp_Header r) ''Location'' = ''''"
  shows "follow_redirect E c (n, r) s =
           (None, s\<lparr>trace := trace s @
              [Close n, HandleError ''Redirect response missing Location header'']\<rparr>)"
  using assms by (auto simp: follow_redirect_def state_emit2)

lemma follow_redirect_sends:
  assumes "resp_StatusCode r = 302 \<or> resp_StatusCode r = 307"
      and "header_Get (resp_Header r) ''Location'' \<noteq> ''''"
      and "url_Parse E (header_Get (resp_Header r) ''Location'') = Inr parsed"
      and "redirectURL = (if url_IsAbs E parsed then parsed
                          else url_ResolveReference E (resp_Request_URL r) parsed)"
      and "http_NewRequest E ''GET'' (url_String E redirectURL) = None"
  shows "follow_redirect E c (n, r) s =
     (case Do E (trace s @ [Close n]) (redirect_request E c redirectURL) of
        Inl err \<Rightarrow>
          (None, s\<lparr>trace := trace s @
             [Close n, Send RedirectReq (redirect_request E c redirectURL),
              HandleError (''Failed to execute redirect request to '' @
                url_String E redirectURL @ '': '' @ err)]\<rparr>)
      | Inr redirectResp \<Rightarrow>
          (Some (Suc (length (trace s)), redirectResp),
           s\<lparr>trace := trace s @
             [Close n, Send RedirectReq (redirect_request E c redirectURL),
              Opened (Suc (length (trace s)))]\<rparr>))"
  using assms
  by (auto simp: follow_redirect_def do_request_def emit_def Let_def split: sum.split)

lemma follow_redirect_trace:
  "\<exists>new. trace (snd (follow_redirect E c resp s)) = trace s @ new \<and>
         set (sites new) \<subseteq> {RedirectReq} \<and> length (sites new) \<le> 1"
  by (cases resp)
     (simp add: follow_redirect_def do_request_def emit_def Let_def
        split: sum.split option.split)


lemma after_auth_trace:
  "\<exists>new. trace (after_auth E cfg c resp s) = trace s @ new \<and>
         set (sites new) \<subseteq> {RedirectReq} \<and> length (sites new) \<le> 1"
proof -
  obtain res s1 where fr: "follow_redirect E c resp s = (res, s1)"
    by (cases "follow_redirect E c resp s")
  from follow_redirect_trace [of E c resp s] fr obtain new1
    where n1: "trace s1 = trace s @ new1" "set (sites new1) \<subseteq> {RedirectReq}"
      "length (sites new1) \<le> 1"
    by auto
  show ?thesis
  proof (cases res)
    case None
    with fr n1 show ?thesis by (simp add: after_auth_def)
  next
    case (Some resp1)
    from finish_trace [of E cfg resp1 s1] obtain new2
      where n2: "trace (finish E cfg resp1 s1) = trace s1 @ new2" "sites new2 = []"
      by auto
    have "trace (after_auth E cfg c resp s) = trace s @ (new1 @ new2)"
      using fr Some n1(1) n2(1) by (simp add: after_auth_def)
    moreover have "sites (new1 @ new2) = sites new1"
      using n2(2) by (simp add: sites_append)
    ultimately show ?thesis using n1(2,3) by metis
  qed
qed





lemma ChallengeReq_sites:
  "set (sites (events_since s (snd (ChallengeReq E target info s)))) \<subseteq> {ChallengeProbe, TokenReq}"
  using ChallengeReq_trace [of E target info s] by (auto simp: events_since_def)

lemma ChallengeReq_extends:
  "trace (snd (ChallengeReq E target info s)) =
     trace s @ events_since s (snd (ChallengeReq E target info s))"
  using ChallengeReq_trace [of E target info s] by (auto simp: events_since_def)

lemma after_auth_extends:
  "trace (after_auth E cfg c resp s) = trace s @ events_since s (after_auth E cfg c resp s)"
  using after_auth_trace [of E cfg c resp s] by (auto simp: events_since_def)

lemma after_auth_sites:
  "set (sites (events_since s (after_auth E cfg c resp s))) \<subseteq> {RedirectReq}"
  using after_auth_trace [of E cfg c resp s] by (auto simp: events_since_def)


lemma GhcrRequest_sent:
  assumes "c_ReqBodyFull c = Inr bodyByte" and "rb_Build E (c_Method c) u = None"
      and "Do E (trace s) (initial_request E c u bodyByte img target s) = Inr r0"
  shows "GhcrRequest E cfg c u img target s =
     (case auth_retry E c u bodyByte img target (length (trace s), r0)
             (s\<lparr>trace := trace s @ [Send InitialReq (initial_request E c u bodyByte img target s),
                                    Opened (length (trace s))]\<rparr>) of
        (None, s2) \<Rightarrow> s2
      | (Some resp2, s2) \<Rightarrow> after_auth E cfg c resp2 s2)"
  using assms by (simp add: GhcrRequest_def do_request_def emit_def)

lemma auth_retry_skipped:
  assumes "\<not> ((resp_StatusCode r = 401 \<or> resp_StatusCode r = 404) \<and> c_RequestURIPath c \<noteq> ''/v2/'')"
  shows "auth_retry E c u bodyByte img target (n, r) s = (Some (n, r), s)"
  using assms by (auto simp: auth_retry_def)

lemma auth_retry_no_token:
  assumes "resp_StatusCode r = 401 \<or> resp_StatusCode r = 404" and "c_RequestURIPath c \<noteq> ''/v2/''"
      and "img = Some info" and "ChallengeReq E target info s = ('''', s1)"
  shows "auth_retry E c u bodyByte img target (n, r) s = (Some (n, r), s1)"
  using assms by (auto simp: auth_retry_def)

lemma auth_retry_token:
  assumes "resp_StatusCode r = 401 \<or> resp_StatusCode r = 404" and "c_RequestURIPath c \<noteq> ''/v2/''"
      and "img = Some info" and "ChallengeReq E target info s = (token, s1)" and "token \<noteq> ''''"
      and "rb_Build E (c_Method c) u = None"
      and "s3 = s1\<lparr>cache := (cache s1)(Image info \<mapsto> token),
                    trace := trace s1 @ [Close n, CachePut (Image info) token]\<rparr>"
      and "rq = retry_request E c u bodyByte target token"
  shows "auth_retry E c u bodyByte img target (n, r) s =
     (case Do E (trace s3) rq of
        Inl err \<Rightarrow>
          (None, s3\<lparr>trace := trace s3 @
             [Send RetryReq rq, HandleError (''Failed to send retry request: '' @ err)]\<rparr>)
      | Inr r1 \<Rightarrow>
          (Some (length (trace s3), r1),
           s3\<lparr>trace := trace s3 @ [Send RetryReq rq, Opened (length (trace s3))]\<rparr>))"
  using assms
  by (auto simp: auth_retry_def cache_Put_def do_request_def emit_def Let_def split: sum.split)

lemma header_Get_Set: "header_Get (header_Set h key v) key = v"
  by (simp add: header_Get_def header_Set_def)




text \<open>The ways through \<open>GhcrRequest\<close> once the initial request has an answer.\<close>

lemma GhcrRequest_not_fired:
  assumes "c_ReqBodyFull c = Inr bodyByte" and "rb_Build E (c_Method c) u = None"
      and "req0 = initial_request E c u bodyByte img target s"
      and "Do E (trace s) req0 = Inr r0"
      and "s1 = s\<lparr>trace := trace s @ [Send InitialReq req0, Opened (length (trace s))]\<rparr>"
      and "\<not> ((resp_StatusCode r0 = 401 \<or> resp_StatusCode r0 = 404) \<and> c_RequestURIPath c \<noteq> ''/v2/'')"
  shows "GhcrRequest E cfg c u img target s = after_auth E cfg c (length (trace s), r0) s1"
    and "events_since s (GhcrRequest E cfg c u img target s) =
           [Send InitialReq req0, Opened (length (trace s))] @
           events_since s1 (after_auth E cfg c (length (trace s), r0) s1)"
proof -
  have "GhcrRequest E cfg c u img target s =
      (case auth_retry E c u bodyByte img target (length (trace s), r0) s1 of
         (None, s2) \<Rightarrow> s2 | (Some resp2, s2) \<Rightarrow> after_auth E cfg c resp2 s2)"
    using GhcrRequest_sent [OF assms(1,2), of s img target r0 cfg] assms(3,4,5) by simp
  then show eq: "GhcrRequest E cfg c u img target s = after_auth E cfg c (length (trace s), r0) s1"
    by (simp add: auth_retry_skipped [OF assms(6)])
  have "trace (after_auth E cfg c (length (trace s), r0) s1) =
      trace s @ [Send InitialReq req0, Opened (length (trace s))] @
        events_since s1 (after_auth E cfg c (length (trace s), r0) s1)"
    using after_auth_extends [of E cfg c "(length (trace s), r0)" s1] assms(5) by simp
  then show "events_since s (GhcrRequest E cfg c u img target s) =
           [Send InitialReq req0, Opened (length (trace s))] @
           events_since s1 (after_auth E cfg c (length (trace s), r0) s1)"
    unfolding eq by (rule events_since_append)
qed

lemma GhcrRequest_no_token:
  assumes "c_ReqBodyFull c = Inr bodyByte" and "rb_Build E (c_Method c) u = None"
      and "req0 = initial_request E c u bodyByte img target s"
      and "Do E (trace s) req0 = Inr r0"
      and "s1 = s\<lparr>trace := trace s @ [Send InitialReq req0, Opened (length (trace s))]\<rparr>"
      and "(resp_StatusCode r0 = 401 \<or> resp_StatusCode r0 = 404) \<and> c_RequestURIPath c \<noteq> ''/v2/''"
      and "img = Some info" and "ChallengeReq E target info s1 = ('''', s2)"
  shows "GhcrRequest E cfg c u img target s = after_auth E cfg c (length (trace s), r0) s2"
    and "events_since s (GhcrRequest E cfg c u img target s) =
           [Send InitialReq req0, Opened (length (trace s))] @ events_since s1 s2 @
           events_since s2 (after_auth E cfg c (length (trace s), r0) s2)"
proof -
  have "GhcrRequest E cfg c u img target s =
      (case auth_retry E c u bodyByte img target (length (trace s), r0) s1 of
         (None, s2) \<Rightarrow> s2 | (Some resp2, s2) \<Rightarrow> after_auth E cfg c resp2 s2)"
    using GhcrRequest_sent [OF assms(1,2), of s img target r0 cfg] assms(3,4,5) by simp
  moreover have "auth_retry E c u bodyByte img target (length (trace s), r0) s1 =
      (Some (length (trace s), r0), s2)"
    using assms(6,7,8) by (intro auth_retry_no_token) auto
  ultimately show eq: "GhcrRequest E cfg c u img target s =
      after_auth E cfg c (length (trace s), r0) s2"
    by simp
  have "trace s2 = trace s1 @ events_since s1 s2"
    using ChallengeReq_extends [of E target info s1] assms(8) by simp
  then have "trace (after_auth E cfg c (length (trace s), r0) s2) =
      trace s @ [Send InitialReq req0, Opened (length (trace s))] @ events_since s1 s2 @
        events_since s2 (after_auth E cfg c (length (trace s), r0) s2)"
    using after_auth_extends [of E cfg c "(length (trace s), r0)" s2] assms(5) by simp
  then show "events_since s (GhcrRequest E cfg c u img target s) =
           [Send InitialReq req0, Opened (length (trace s))] @ events_since s1 s2 @
           events_since s2 (after_auth E cfg c (length (trace s), r0) s2)"
    unfolding eq by (rule events_since_append)
qed

lemma GhcrRequest_retry_failed:
  assumes "c_ReqBodyFull c = Inr bodyByte" and "rb_Build E (c_Method c) u = None"
      and "req0 = initial_request E c u bodyByte img target s"
      and "Do E (trace s) req0 = Inr r0"
      and "s1 = s\<lparr>trace := trace s @ [Send InitialReq req0, Opened (length (trace s))]\<rparr>"
      and "(resp_StatusCode r0 = 401 \<or> resp_StatusCode r0 = 404) \<and> c_RequestURIPath c \<noteq> ''/v2/''"
      and "img = Some info" and "ChallengeReq E target info s1 = (token, s2)" and "token \<noteq> ''''"
      and "s3 = s2\<lparr>cache := (cache s2)(Image info \<mapsto> token),
                    trace := trace s2 @ [Close (length (trace s)), CachePut (Image info) token]\<rparr>"
      and "rq = retry_request E c u bodyByte target token"
      and "Do E (trace s3) rq = Inl err"
  shows "GhcrRequest E cfg c u img target s =
           s3\<lparr>trace := trace s3 @
              [Send RetryReq rq, HandleError (''Failed to send retry request: '' @ err)]\<rparr>"
    and "events_since s (GhcrRequest E cfg c u img target s) =
           [Send InitialReq req0, Opened (length (trace s))] @ events_since s1 s2 @
           [Close (length (trace s)), CachePut (Image info) token, Send RetryReq rq,
            HandleError (''Failed to send retry request: '' @ err)]"
proof -
  have "GhcrRequest E cfg c u img target s =
      (case auth_retry E c u bodyByte img target (length (trace s), r0) s1 of
         (None, s2) \<Rightarrow> s2 | (Some resp2, s2) \<Rightarrow> after_auth E cfg c resp2 s2)"
    using GhcrRequest_sent [OF assms(1,2), of s img target r0 cfg] assms(3,4,5) by simp
  moreover have "auth_retry E c u bodyByte img target (length (trace s), r0) s1 =
      (None, s3\<lparr>trace := trace s3 @
         [Send RetryReq rq, HandleError (''Failed to send retry request: '' @ err)]\<rparr>)"
    using auth_retry_token [of r0 c img info E target s1 token s2 u s3 "length (trace s)" rq bodyByte]
      assms(2,6-12) by simp
  ultimately show eq: "GhcrRequest E cfg c u img target s =
      s3\<lparr>trace := trace s3 @
         [Send RetryReq rq, HandleError (''Failed to send retry request: '' @ err)]\<rparr>"
    by simp
  have "trace s2 = trace s1 @ events_since s1 s2"
    using ChallengeReq_extends [of E target info s1] assms(8) by simp
  then have "trace (s3\<lparr>trace := trace s3 @
         [Send RetryReq rq, HandleError (''Failed to send retry request: '' @ err)]\<rparr>) =
      trace s @ [Send InitialReq req0, Opened (length (trace s))] @ events_since s1 s2 @
           [Close (length (trace s)), CachePut (Image info) token, Send RetryReq rq,
            HandleError (''Failed to send retry request: '' @ err)]"
    using assms(5,10) by simp
  then show "events_since s (GhcrRequest E cfg c u img target s) =
           [Send InitialReq req0, Opened (length (trace s))] @ events_since s1 s2 @
           [Close (length (trace s)), CachePut (Image info) token, Send RetryReq rq,
            HandleError (''Failed to send retry request: '' @ err)]"
    unfolding eq by (rule events_since_append)
qed

lemma GhcrRequest_retried:
  assumes "c_ReqBodyFull c = Inr bodyByte" and "rb_Build E (c_Method c) u = None"
      and "req0 = initial_request E c u bodyByte img target s"
      and "Do E (trace s) req0 = Inr r0"
      and "s1 = s\<lparr>trace := trace s @ [Send InitialReq req0, Opened (length (trace s))]\<rparr>"
      and "(resp_StatusCode r0 = 401 \<or> resp_StatusCode r0 = 404) \<and> c_RequestURIPath c \<noteq> ''/v2/''"
      and "img = Some info" and "ChallengeReq E target info s1 = (token, s2)" and "token \<noteq> ''''"
      and "s3 = s2\<lparr>cache := (cache s2)(Image info \<mapsto> token),
                    trace := trace s2 @ [Close (length (trace s)), CachePut (Image info) token]\<rparr>"
      and "rq = retry_request E c u bodyByte target token"
      and "Do E (trace s3) rq = Inr r1"
      and "s4 = s3\<lparr>trace := trace s3 @ [Send RetryReq rq, Opened (length (trace s3))]\<rparr>"
  shows "GhcrRequest E cfg c u img target s = after_auth E cfg c (length (trace s3), r1) s4"
    and "events_since s (GhcrRequest E cfg c u img target s) =
           [Send InitialReq req0, Opened (length (trace s))] @ events_since s1 s2 @
           [Close (length (trace s)), CachePut (Image info) token, Send RetryReq rq,
            Opened (length (trace s3))] @
           events_since s4 (after_auth E cfg c (length (trace s3), r1) s4)"
proof -
  have "GhcrRequest E cfg c u img target s =
      (case auth_retry E c u bodyByte img target (length (trace s), r0) s1 of
         (None, s2) \<Rightarrow> s2 | (Some resp2, s2) \<Rightarrow> after_auth E cfg c resp2 s2)"
    using GhcrRequest_sent [OF assms(1,2), of s img target r0 cfg] assms(3,4,5) by simp
  moreover have "auth_retry E c u bodyByte img target (length (trace s), r0) s1 =
      (Some (length (trace s3), r1), s4)"
    using auth_retry_token [of r0 c img info E target s1 token s2 u s3 "length (trace s)" rq bodyByte]
      assms(2,6-13) by simp
  ultimately show eq: "GhcrRequest E cfg c u img target s =
      after_auth E cfg c (length (trace s3), r1) s4"
    by simp
  have "trace s2 = trace s1 @ events_since s1 s2"
    using ChallengeReq_extends [of E target info s1] assms(8) by simp
  then have "trace (after_auth E cfg c (length (trace s3), r1) s4) =
      trace s @ [Send InitialReq req0, Opened (length (trace s))] @ events_since s1 s2 @
           [Close (length (trace s)), CachePut (Image info) token, Send RetryReq rq,
            Opened (length (trace s3))] @
           events_since s4 (after_auth E cfg c (length (trace s3), r1) s4)"
    using after_auth_extends [of E cfg c "(length (trace s3), r1)" s4] assms(5,10,13) by simp
  then show "events_since s (GhcrRequest E cfg c u img target s) =
           [Send InitialReq req0, Opened (length (trace s))] @ events_since s1 s2 @
           [Close (length (trace s)), CachePut (Image info) token, Send RetryReq rq,
            Opened (length (trace s3))] @
           events_since s4 (after_auth E cfg c (length (trace s3), r1) s4)"
    unfolding eq by (rule events_since_append)
qed

lemma GhcrRequest_send_failed:
  assumes "c_ReqBodyFull c = Inr bodyByte" and "rb_Build E (c_Method c) u = None"
      and "req0 = initial_request E c u bodyByte img target s"
      and "Do E (trace s) req0 = Inl err"
  shows "events_since s (GhcrRequest E cfg c u img target s) =
           [Send InitialReq req0, HandleError (''Failed to send request: '' @ err)]"
  using assms by (simp add: GhcrRequest_def do_request_def emit_def events_since_def)

lemma GhcrRequest_retry_sent:
  assumes "c_ReqBodyFull c = Inr bodyByte" and "rb_Build E (c_Method c) u = None"
      and "req0 = initial_request E c u bodyByte img target s"
      and "Do E (trace s) req0 = Inr r0"
      and "s1 = s\<lparr>trace := trace s @ [Send InitialReq req0, Opened (length (trace s))]\<rparr>"
      and "(resp_StatusCode r0 = 401 \<or> resp_StatusCode r0 = 404) \<and> c_RequestURIPath c \<noteq> ''/v2/''"
      and "img = Some info" and "ChallengeReq E target info s1 = (token, s2)" and "token \<noteq> ''''"
  shows "requests_at RetryReq (events_since s (GhcrRequest E cfg c u img target s)) =
           [retry_request E c u bodyByte target token]"
    and "requests_at InitialReq (events_since s (GhcrRequest E cfg c u img target s)) = [req0]"
proof -
  define s3 where "s3 = s2\<lparr>cache := (cache s2)(Image info \<mapsto> token),
      trace := trace s2 @ [Close (length (trace s)), CachePut (Image info) token]\<rparr>"
  define rq where "rq = retry_request E c u bodyByte target token"
  have sC: "set (sites (events_since s1 s2)) \<subseteq> {ChallengeProbe, TokenReq}"
    using ChallengeReq_sites [of s1 E target info] assms(8) by simp
  have evC: "requests_at RetryReq (events_since s1 s2) = []"
    "requests_at InitialReq (events_since s1 s2) = []"
    using sC by (auto intro!: requests_at_no_site)
  have both: "requests_at RetryReq (events_since s (GhcrRequest E cfg c u img target s)) = [rq] \<and>
      requests_at InitialReq (events_since s (GhcrRequest E cfg c u img target s)) = [req0]"
  proof (cases "Do E (trace s3) rq")
    case (Inl err)
    from GhcrRequest_retry_failed(2) [OF assms s3_def rq_def Inl, of cfg]
    show ?thesis by (simp add: requests_at_append evC)
  next
    case (Inr r1)
    let ?s4 = "s3\<lparr>trace := trace s3 @ [Send RetryReq rq, Opened (length (trace s3))]\<rparr>"
    have "requests_at RetryReq
        (events_since ?s4 (after_auth E cfg c (length (trace s3), r1) ?s4)) = []"
      "requests_at InitialReq
        (events_since ?s4 (after_auth E cfg c (length (trace s3), r1) ?s4)) = []"
      using after_auth_sites [of ?s4 E cfg c "(length (trace s3), r1)"]
      by (auto intro!: requests_at_no_site)
    with GhcrRequest_retried(2) [OF assms s3_def rq_def Inr refl, of cfg]
    show ?thesis by (simp add: requests_at_append evC)
  qed
  from both show "requests_at RetryReq (events_since s (GhcrRequest E cfg c u img target s)) =
      [retry_request E c u bodyByte target token]"
    by (simp add: rq_def)
  from both show "requests_at InitialReq (events_since s (GhcrRequest E cfg c u img target s))
      = [req0]"
    by simp
qed

lemma GhcrRequest_requests:
  assumes "c_ReqBodyFull c = Inr bodyByte" and "rb_Build E (c_Method c) u = None"
      and "req0 = initial_request E c u bodyByte img target s"
      and "img = Some info"
  shows "requests_at InitialReq (events_since s (GhcrRequest E cfg c u img target s)) = [req0] \<and>
         (requests_at RetryReq (events_since s (GhcrRequest E cfg c u img target s)) = [] \<or>
          (\<exists>token. requests_at RetryReq (events_since s (GhcrRequest E cfg c u img target s)) =
                     [retry_request E c u bodyByte target token]))"
proof (cases "Do E (trace s) req0")
  case (Inl err)
  from GhcrRequest_send_failed [OF assms(1-3) Inl, of cfg] show ?thesis by simp
next
  case (Inr r0)
  define s1 where "s1 = s\<lparr>trace := trace s @ [Send InitialReq req0, Opened (length (trace s))]\<rparr>"
  show ?thesis
  proof (cases "(resp_StatusCode r0 = 401 \<or> resp_StatusCode r0 = 404) \<and>
      c_RequestURIPath c \<noteq> ''/v2/''")
    case False
    have "requests_at RetryReq
        (events_since s1 (after_auth E cfg c (length (trace s), r0) s1)) = []"
      "requests_at InitialReq
        (events_since s1 (after_auth E cfg c (length (trace s), r0) s1)) = []"
      using after_auth_sites [of s1 E cfg c "(length (trace s), r0)"]
      by (auto intro!: requests_at_no_site)
    with GhcrRequest_not_fired(2) [OF assms(1-3) Inr s1_def False, of cfg]
    show ?thesis by (simp add: requests_at_append)
  next
    case fires: True
    obtain token s2 where ch: "ChallengeReq E target info s1 = (token, s2)"
      by (cases "ChallengeReq E target info s1")
    have sC: "set (sites (events_since s1 s2)) \<subseteq> {ChallengeProbe, TokenReq}"
      using ChallengeReq_sites [of s1 E target info] ch by simp
    have evC: "requests_at RetryReq (events_since s1 s2) = []"
      "requests_at InitialReq (events_since s1 s2) = []"
      using sC by (auto intro!: requests_at_no_site)
    show ?thesis
    proof (cases "token = ''''")
      case True
      have "requests_at RetryReq
          (events_since s2 (after_auth E cfg c (length (trace s), r0) s2)) = []"
        "requests_at InitialReq
          (events_since s2 (after_auth E cfg c (length (trace s), r0) s2)) = []"
        using after_auth_sites [of s2 E cfg c "(length (trace s), r0)"]
        by (auto intro!: requests_at_no_site)
      with GhcrRequest_no_token(2) [OF assms(1-3) Inr s1_def fires assms(4) ch [unfolded True],
          of cfg]
      show ?thesis by (simp add: requests_at_append evC)
    next
      case False
      from GhcrRequest_retry_sent [OF assms(1-3) Inr s1_def fires assms(4) ch False, of cfg]
      show ?thesis by blast
    qed
  qed
qed


section \<open>Claims about the challenge resolver and the engine\<close>

text \<open>
  Claim C9. \<open>n\<close> is the number of events before the call, \<open>probe\<close> the request
  \<open>GET https://<target>/v2/\<close> with \<open>Host\<close> set to the target, and \<open>tokenReq b\<close> the request
  \<open>GET <realm>\<close> with the query \<open>service\<close> and \<open>scope = repository:<image>:pull\<close> and with \<open>Host\<close>
  set to the service of the challenge \<open>b\<close>. Branch by branch: if the probe cannot be built,
  or is sent and has no answer, the result is the empty string and no body was opened. If
  the probe is answered, its body \<open>n\<close> is open; when the challenge does not parse or the
  token request cannot be built, the body is closed and the result is empty. If the token
  request is sent and has no answer, the body \<open>n\<close> is closed and the result is empty. If it
  is answered, its body \<open>n + 2\<close> is read and closed, then the body \<open>n\<close> is closed, and the
  result is the decoded token when the body is read and decoded, the empty string
  otherwise. So the result is the token exactly when every step succeeds (it is the result
  of the five steps of the specification), and on every branch the bodies closed during
  the call are the bodies opened during the call, the later one first.
\<close>

theorem ChallengeReq_token_or_empty_bodies_closed:
  assumes "n = length (trace s)"
      and "probe = \<lparr>req_Method = ''GET'', req_URL = ''https://'' @ target @ ''/v2/'',
                     req_Query = [], req_Header = [''Host'' \<mapsto> [target]], req_Body = ''''\<rparr>"
      and "tokenReq = (\<lambda>b. \<lparr>req_Method = ''GET'', req_URL = Realm b,
                        req_Query = [(''service'', Service b),
                                     (''scope'', ''repository:'' @ Image img @ '':pull'')],
                        req_Header = [''Host'' \<mapsto> [Service b]], req_Body = ''''\<rparr>)"
      and "result = ChallengeReq E target img s"
  shows "fst result = challenge_spec E target img (trace s) \<and>
         closed_bodies (events_since s (snd result)) =
           rev (opened_bodies (events_since s (snd result))) \<and>
         (\<forall>err. rb_Build E ''GET'' (''https://'' @ target @ ''/v2/'') = Some err \<longrightarrow>
            result = ('''', s\<lparr>trace := trace s @
               [HandleError (''Failed to create request: '' @ err)]\<rparr>)) \<and>
         (rb_Build E ''GET'' (''https://'' @ target @ ''/v2/'') = None \<longrightarrow>
            (\<forall>err. Do E (trace s) probe = Inl err \<longrightarrow>
               result = ('''', s\<lparr>trace := trace s @
                  [Send ChallengeProbe probe,
                   HandleError (''Failed to send request: '' @ err)]\<rparr>)) \<and>
            (\<forall>resp401. Do E (trace s) probe = Inr resp401 \<longrightarrow>
               (\<forall>err. parseBearerWWWAuthenticateHeader E
                         (header_Get (resp_Header resp401) ''Www-Authenticate'') = Inl err \<longrightarrow>
                  result = ('''', s\<lparr>trace := trace s @
                     [Send ChallengeProbe probe, Opened n, Close n]\<rparr>)) \<and>
               (\<forall>b. parseBearerWWWAuthenticateHeader E
                       (header_Get (resp_Header resp401) ''Www-Authenticate'') = Inr b \<longrightarrow>
                  (\<forall>err. rb_Build E ''GET'' (Realm b) = Some err \<longrightarrow>
                     result = ('''', s\<lparr>trace := trace s @
                        [Send ChallengeProbe probe, Opened n, Close n]\<rparr>)) \<and>
                  (rb_Build E ''GET'' (Realm b) = None \<longrightarrow>
                     (\<forall>err. Do E (trace s @ [Send ChallengeProbe probe, Opened n]) (tokenReq b)
                              = Inl err \<longrightarrow>
                        result = ('''', s\<lparr>trace := trace s @
                           [Send ChallengeProbe probe, Opened n, Send TokenReq (tokenReq b),
                            Close n]\<rparr>)) \<and>
                     (\<forall>authResp. Do E (trace s @ [Send ChallengeProbe probe, Opened n])
                                   (tokenReq b) = Inr authResp \<longrightarrow>
                        snd result = s\<lparr>trace := trace s @
                           [Send ChallengeProbe probe, Opened n, Send TokenReq (tokenReq b),
                            Opened (n + 2), ReadAll (n + 2), Close (n + 2), Close n]\<rparr> \<and>
                        (\<forall>err. resp_Body authResp = Inl err \<longrightarrow> fst result = '''') \<and>
                        (\<forall>body. resp_Body authResp = Inr body \<longrightarrow>
                           (\<forall>err. json_Unmarshal_token E body = Inl err \<longrightarrow>
                              fst result = '''') \<and>
                           (\<forall>token. json_Unmarshal_token E body = Inr token \<longrightarrow>
                              fst result = token)))))))"
proof (intro conjI allI impI)
  show "fst result = challenge_spec E target img (trace s)"
    unfolding assms(4) by (rule ChallengeReq_refines_spec)
  show "closed_bodies (events_since s (snd result)) =
      rev (opened_bodies (events_since s (snd result)))"
    unfolding assms(4) by (rule ChallengeReq_bodies)
next
  fix err assume "rb_Build E ''GET'' (''https://'' @ target @ ''/v2/'') = Some err"
  then show "result = ('''', s\<lparr>trace := trace s @
      [HandleError (''Failed to create request: '' @ err)]\<rparr>)"
    unfolding assms(4) by (rule ChallengeReq_build_failed)
next
  fix err
  assume "rb_Build E ''GET'' (''https://'' @ target @ ''/v2/'') = None"
    and "Do E (trace s) probe = Inl err"
  then show "result = ('''', s\<lparr>trace := trace s @
      [Send ChallengeProbe probe, HandleError (''Failed to send request: '' @ err)]\<rparr>)"
    unfolding assms(4) using assms(2) by (intro ChallengeReq_probe_failed)
next
  fix resp401 err
  assume "rb_Build E ''GET'' (''https://'' @ target @ ''/v2/'') = None"
    and "Do E (trace s) probe = Inr resp401"
    and "parseBearerWWWAuthenticateHeader E
           (header_Get (resp_Header resp401) ''Www-Authenticate'') = Inl err"
  then show "result = ('''', s\<lparr>trace := trace s @
      [Send ChallengeProbe probe, Opened n, Close n]\<rparr>)"
    unfolding assms(1,4) using assms(2) by (intro ChallengeReq_no_challenge)
next
  fix resp401 b err
  assume "rb_Build E ''GET'' (''https://'' @ target @ ''/v2/'') = None"
    and "Do E (trace s) probe = Inr resp401"
    and "parseBearerWWWAuthenticateHeader E
           (header_Get (resp_Header resp401) ''Www-Authenticate'') = Inr b"
    and "rb_Build E ''GET'' (Realm b) = Some err"
  then show "result = ('''', s\<lparr>trace := trace s @
      [Send ChallengeProbe probe, Opened n, Close n]\<rparr>)"
    unfolding assms(1,4) using assms(2) by (intro ChallengeReq_token_build_failed)
next
  fix resp401 b err
  assume "rb_Build E ''GET'' (''https://'' @ target @ ''/v2/'') = None"
    and "Do E (trace s) probe = Inr resp401"
    and "parseBearerWWWAuthenticateHeader E
           (header_Get (resp_Header resp401) ''Www-Authenticate'') = Inr b"
    and "rb_Build E ''GET'' (Realm b) = None"
    and "Do E (trace s @ [Send ChallengeProbe probe, Opened n]) (tokenReq b) = Inl err"
  then show "result = ('''', s\<lparr>trace := trace s @
      [Send ChallengeProbe probe, Opened n, Send TokenReq (tokenReq b), Close n]\<rparr>)"
    unfolding assms(1,4) using assms(2)
    by (intro ChallengeReq_token_send_failed) (simp_all add: assms(3))
next
  fix resp401 b authResp
  assume h: "rb_Build E ''GET'' (''https://'' @ target @ ''/v2/'') = None"
    "Do E (trace s) probe = Inr resp401"
    "parseBearerWWWAuthenticateHeader E
       (header_Get (resp_Header resp401) ''Www-Authenticate'') = Inr b"
    "rb_Build E ''GET'' (Realm b) = None"
    "Do E (trace s @ [Send ChallengeProbe probe, Opened n]) (tokenReq b) = Inr authResp"
  have tr: "tokenReq b = \<lparr>req_Method = ''GET'', req_URL = Realm b,
      req_Query = [(''service'', Service b), (''scope'', ''repository:'' @ Image img @ '':pull'')],
      req_Header = [''Host'' \<mapsto> [Service b]], req_Body = ''''\<rparr>"
    by (simp add: assms(3))
  note eq = ChallengeReq_token_answered [OF h(1) assms(2) h(2,3,4) tr h(5) [unfolded assms(1)]]
  show "snd result = s\<lparr>trace := trace s @
      [Send ChallengeProbe probe, Opened n, Send TokenReq (tokenReq b),
       Opened (n + 2), ReadAll (n + 2), Close (n + 2), Close n]\<rparr>"
    unfolding assms(1,4) eq by simp
  {
    fix err assume "resp_Body authResp = Inl err"
    then show "fst result = ''''" unfolding assms(4) eq by simp
  next
    fix body err
    assume "resp_Body authResp = Inr body" "json_Unmarshal_token E body = Inl err"
    then show "fst result = ''''" unfolding assms(4) eq by simp
  next
    fix body token
    assume "resp_Body authResp = Inr body" "json_Unmarshal_token E body = Inr token"
    then show "fst result = token" unfolding assms(4) eq by simp
  }
qed

theorem ChallengeReq_token_or_empty_bodies_closed_witness:
  "fst (ChallengeReq example_env ''ghcr.io'' example_image example_state) = ''tok1'' \<and>
   snd (ChallengeReq example_env ''ghcr.io'' example_image example_state) =
     example_state\<lparr>trace := trace example_state @
       [Send ChallengeProbe
          \<lparr>req_Method = ''GET'', req_URL = ''https://ghcr.io/v2/'', req_Query = [],
           req_Header = [''Host'' \<mapsto> [''ghcr.io'']], req_Body = ''''\<rparr>,
        Opened 0,
        Send TokenReq
          \<lparr>req_Method = ''GET'', req_URL = ''https://ghcr.io/token'',
           req_Query = [(''service'', ''ghcr.io''), (''scope'', ''repository:octo/cat:pull'')],
           req_Header = [''Host'' \<mapsto> [''ghcr.io'']], req_Body = ''''\<rparr>,
        Opened 2, ReadAll 2, Close 2, Close 0]\<rparr> \<and>
   ChallengeReq example_env ''docker.io'' example_image example_state =
     ('''', example_state\<lparr>trace := trace example_state @
       [Send ChallengeProbe
          \<lparr>req_Method = ''GET'', req_URL = ''https://docker.io/v2/'', req_Query = [],
           req_Header = [''Host'' \<mapsto> [''docker.io'']], req_Body = ''''\<rparr>,
        Opened 0, Close 0]\<rparr>)"
  using ChallengeReq_token_or_empty_bodies_closed
      [where E = example_env and target = "''ghcr.io''" and img = example_image
         and s = example_state, OF refl refl refl refl]
    ChallengeReq_token_or_empty_bodies_closed
      [where E = example_env and target = "''docker.io''" and img = example_image
         and s = example_state, OF refl refl refl refl]
  by (simp add: example_defs header_Get_def challenge_spec_def challenge_steps_def
      spec_probe_def spec_token_request_def succeeded_def built_def)

text \<open>
  Claim C5. Let the cache hold a token for the image of the request, and let the body of
  the client's request be read and the upstream request be built. Then the initial request
  carries \<open>Authorization: Bearer <token>\<close>, its body is the bytes read from the client, it
  is the only request sent as the initial one, and every request sent as a retry has the
  same bytes, method and URL. If the first response has status 200, the initial request is
  the only request of the whole run: no challenge, no retry, no redirect.
\<close>

theorem cached_token_attached_no_challenge:
  assumes "img = Some info" and "cache s (Image info) = Some token"
      and "c_ReqBodyFull c = Inr bodyByte" and "rb_Build E (c_Method c) u = None"
      and "req0 = initial_request E c u bodyByte img target s"
      and "s' = GhcrRequest E cfg c u img target s"
  shows "header_Get (req_Header req0) ''Authorization'' = ''Bearer '' @ token \<and>
         req_Body req0 = bodyByte \<and>
         requests_at InitialReq (events_since s s') = [req0] \<and>
         (\<forall>rq \<in> set (requests_at RetryReq (events_since s s')).
            req_Body rq = bodyByte \<and> req_Method rq = req_Method req0 \<and>
            req_URL rq = req_URL req0) \<and>
         (\<forall>r0. Do E (trace s) req0 = Inr r0 \<and> resp_StatusCode r0 = 200 \<longrightarrow>
            sites (events_since s s') = [InitialReq])"
proof (intro conjI ballI allI impI; (elim conjE)?)
  show "header_Get (req_Header req0) ''Authorization'' = ''Bearer '' @ token"
    using assms(1,2,5) by (simp add: initial_request_def header_Get_Set Let_def)
  show "req_Body req0 = bodyByte"
    using assms(5) by (simp add: initial_request_def Let_def)
  note rs = GhcrRequest_requests [OF assms(3,4,5,1), of cfg]
  show "requests_at InitialReq (events_since s s') = [req0]"
    using rs assms(6) by simp
  fix rq assume "rq \<in> set (requests_at RetryReq (events_since s s'))"
  with rs assms(6) obtain tk where "rq = retry_request E c u bodyByte target tk"
    by auto
  then show "req_Body rq = bodyByte" "req_Method rq = req_Method req0" "req_URL rq = req_URL req0"
    using assms(5) by (simp_all add: retry_request_def initial_request_def Let_def)
next
  fix r0 assume first: "Do E (trace s) req0 = Inr r0" and ok: "resp_StatusCode r0 = 200"
  define s1 where "s1 = s\<lparr>trace := trace s @ [Send InitialReq req0, Opened (length (trace s))]\<rparr>"
  have nf: "\<not> ((resp_StatusCode r0 = 401 \<or> resp_StatusCode r0 = 404) \<and>
      c_RequestURIPath c \<noteq> ''/v2/'')"
    using ok by simp
  have "follow_redirect E c (length (trace s), r0) s1 = (Some (length (trace s), r0), s1)"
    using ok by (intro follow_redirect_no_redirect) simp_all
  then have "after_auth E cfg c (length (trace s), r0) s1 = finish E cfg (length (trace s), r0) s1"
    by (simp add: after_auth_def)
  moreover have "sites (events_since s1 (finish E cfg (length (trace s), r0) s1)) = []"
    using finish_trace [of E cfg "(length (trace s), r0)" s1] by (auto simp: events_since_def)
  ultimately show "sites (events_since s s') = [InitialReq]"
    using GhcrRequest_not_fired(2) [OF assms(3,4,5) first s1_def nf, of cfg] assms(6)
    by (simp add: sites_append)
qed

theorem cached_token_attached_no_challenge_witness:
  "cache example_state_cached (Image example_image) = Some ''tok1'' \<and>
   c_ReqBodyFull example_manifest_client = Inr '''' \<and>
   header_Get (req_Header (initial_request example_env example_manifest_client
      example_manifest_url '''' (Some example_image) ''ghcr.io'' example_state_cached))
      ''Authorization'' = ''Bearer tok1'' \<and>
   map_sum (\<lambda>err. err) resp_StatusCode
     (Do example_env (trace example_state_cached)
        (initial_request example_env example_manifest_client example_manifest_url ''''
           (Some example_image) ''ghcr.io'' example_state_cached)) = Inr 200 \<and>
   sites (events_since example_state_cached
     (GhcrRequest example_env example_config example_manifest_client example_manifest_url
        (Some example_image) ''ghcr.io'' example_state_cached)) = [InitialReq]"
proof -
  let ?req0 = "initial_request example_env example_manifest_client example_manifest_url ''''
      (Some example_image) ''ghcr.io'' example_state_cached"
  have cached: "cache example_state_cached (Image example_image) = Some ''tok1''"
    by (simp add: example_defs)
  have body: "c_ReqBodyFull example_manifest_client = Inr ''''"
    by (simp add: example_defs)
  have build: "rb_Build example_env (c_Method example_manifest_client) example_manifest_url = None"
    by (simp add: example_defs)
  have first: "Do example_env (trace example_state_cached) ?req0 =
      Inr (example_response 200 [''Content-Length'' \<mapsto> [''12'']] ''hello, world''
             example_manifest_url)"
    by (simp add: example_defs example_manifest_url_def initial_request_def upstream_header_def
        header_Get_def header_Set_def)
  note inst = cached_token_attached_no_challenge [OF refl cached body build refl refl,
      of "''ghcr.io''" example_config]
  from inst have "header_Get (req_Header ?req0) ''Authorization'' = ''Bearer tok1''"
    by simp
  moreover from inst first have "sites (events_since example_state_cached
     (GhcrRequest example_env example_config example_manifest_client example_manifest_url
        (Some example_image) ''ghcr.io'' example_state_cached)) = [InitialReq]"
    by (simp add: example_response_def)
  ultimately show ?thesis using cached body first by (simp add: example_response_def)
qed




text \<open>
  Claim C2. Let the response at hand after the retry step have status 302 or 307. Without
  a \<open>Location\<close> the run ends: the body is closed and \<open>HandleError\<close> answers the client. With a
  \<open>Location\<close> that \<open>url.Parse\<close> reads, the target is the location itself when it is absolute and
  else its resolution against the URL of the request that this response answers. If the
  request to the target can be built, the body of the old response is closed first, then
  one request is sent, a \<open>GET\<close> without a body whose only header is the client's
  \<open>User-Agent\<close>, and no other request follows. When that request has an answer, the run ends
  with the last step on that answer, whatever its status: a second redirect is not followed.
\<close>

theorem redirect_followed_once:
  assumes "resp_StatusCode r = 302 \<or> resp_StatusCode r = 307"
  shows "(header_Get (resp_Header r) ''Location'' = '''' \<longrightarrow>
            after_auth E cfg c (n, r) s =
              s\<lparr>trace := trace s @
                 [Close n, HandleError ''Redirect response missing Location header'']\<rparr>) \<and>
         (\<forall>parsed redirectURL.
            header_Get (resp_Header r) ''Location'' \<noteq> '''' \<and>
            url_Parse E (header_Get (resp_Header r) ''Location'') = Inr parsed \<and>
            redirectURL = (if url_IsAbs E parsed then parsed
                           else url_ResolveReference E (resp_Request_URL r) parsed) \<and>
            http_NewRequest E ''GET'' (url_String E redirectURL) = None \<longrightarrow>
            redirect_request E c redirectURL =
              \<lparr>req_Method = ''GET'', req_URL = url_String E redirectURL, req_Query = [],
               req_Header = Map.empty(''User-Agent'' \<mapsto> [header_Get (c_Header c) ''User-Agent'']),
               req_Body = ''''\<rparr> \<and>
            take 2 (events_since s (after_auth E cfg c (n, r) s)) =
              [Close n, Send RedirectReq (redirect_request E c redirectURL)] \<and>
            sites (events_since s (after_auth E cfg c (n, r) s)) = [RedirectReq] \<and>
            (\<forall>redirectResp.
               Do E (trace s @ [Close n]) (redirect_request E c redirectURL) = Inr redirectResp \<longrightarrow>
               after_auth E cfg c (n, r) s =
                 finish E cfg (Suc (length (trace s)), redirectResp)
                   (s\<lparr>trace := trace s @
                      [Close n, Send RedirectReq (redirect_request E c redirectURL),
                       Opened (Suc (length (trace s)))]\<rparr>)))"
proof (intro conjI allI impI; (elim conjE)?)
  assume "header_Get (resp_Header r) ''Location'' = ''''"
  with assms show "after_auth E cfg c (n, r) s =
      s\<lparr>trace := trace s @ [Close n, HandleError ''Redirect response missing Location header'']\<rparr>"
    by (simp add: after_auth_def follow_redirect_missing_Location)
next
  fix parsed redirectURL
  show "redirect_request E c redirectURL =
      \<lparr>req_Method = ''GET'', req_URL = url_String E redirectURL, req_Query = [],
       req_Header = Map.empty(''User-Agent'' \<mapsto> [header_Get (c_Header c) ''User-Agent'']),
       req_Body = ''''\<rparr>"
    by (simp add: redirect_request_def header_Set_def c_UserAgent_def)
next
  fix parsed redirectURL
  assume h: "header_Get (resp_Header r) ''Location'' \<noteq> ''''"
    "url_Parse E (header_Get (resp_Header r) ''Location'') = Inr parsed"
    "redirectURL = (if url_IsAbs E parsed then parsed
                    else url_ResolveReference E (resp_Request_URL r) parsed)"
    "http_NewRequest E ''GET'' (url_String E redirectURL) = None"
  note fr = follow_redirect_sends [OF assms h, of c n s]
  let ?rq = "redirect_request E c redirectURL"
  show "take 2 (events_since s (after_auth E cfg c (n, r) s)) = [Close n, Send RedirectReq ?rq]"
  proof (cases "Do E (trace s @ [Close n]) ?rq")
    case (Inl err)
    with fr show ?thesis by (simp add: after_auth_def events_since_def)
  next
    case (Inr redirectResp)
    let ?s1 = "s\<lparr>trace := trace s @ [Close n, Send RedirectReq ?rq, Opened (Suc (length (trace s)))]\<rparr>"
    from finish_trace [of E cfg "(Suc (length (trace s)), redirectResp)" ?s1] obtain new
      where "trace (finish E cfg (Suc (length (trace s)), redirectResp) ?s1) = trace ?s1 @ new"
      by auto
    with fr Inr show ?thesis by (simp add: after_auth_def events_since_def)
  qed
  show "sites (events_since s (after_auth E cfg c (n, r) s)) = [RedirectReq]"
  proof (cases "Do E (trace s @ [Close n]) ?rq")
    case (Inl err)
    with fr show ?thesis by (simp add: after_auth_def events_since_def)
  next
    case (Inr redirectResp)
    let ?s1 = "s\<lparr>trace := trace s @ [Close n, Send RedirectReq ?rq, Opened (Suc (length (trace s)))]\<rparr>"
    from finish_trace [of E cfg "(Suc (length (trace s)), redirectResp)" ?s1] obtain new
      where "trace (finish E cfg (Suc (length (trace s)), redirectResp) ?s1) = trace ?s1 @ new"
        "sites new = []"
      by auto
    with fr Inr show ?thesis by (simp add: after_auth_def events_since_def sites_append)
  qed
  fix redirectResp
  assume "Do E (trace s @ [Close n]) ?rq = Inr redirectResp"
  with fr show "after_auth E cfg c (n, r) s =
      finish E cfg (Suc (length (trace s)), redirectResp)
        (s\<lparr>trace := trace s @ [Close n, Send RedirectReq ?rq, Opened (Suc (length (trace s)))]\<rparr>)"
    by (simp add: after_auth_def)
qed

theorem redirect_followed_once_witness:
  "resp_StatusCode example_redirect = 302 \<and>
   header_Get (resp_Header example_redirect) ''Location'' = ''/cdn/blob'' \<and>
   \<not> url_IsAbs example_env ''/cdn/blob'' \<and>
   url_ResolveReference example_env (resp_Request_URL example_redirect) ''/cdn/blob''
     = ''https://ghcr.io/cdn/blob'' \<and>
   req_URL (redirect_request example_env example_client ''https://ghcr.io/cdn/blob'')
     = ''https://ghcr.io/cdn/blob'' \<and>
   header_Get (req_Header (redirect_request example_env example_client
     ''https://ghcr.io/cdn/blob'')) ''User-Agent'' = ''docker/27'' \<and>
   sites (events_since example_state
     (after_auth example_env example_config example_client (0, example_redirect) example_state))
     = [RedirectReq]"
  using redirect_followed_once [where r = example_redirect and E = example_env
      and cfg = example_config and c = example_client and n = 0 and s = example_state,
      THEN conjunct2, rule_format, of "''/cdn/blob''" "''https://ghcr.io/cdn/blob''"]
  by (simp add: example_defs header_Get_def header_Set_def HasPrefix_def redirect_request_def
      c_UserAgent_def events_since_def finish_def stream_body_def emit_def Let_def)

text \<open>
  Claim C3. Let the final response reach the size check, that is, let its status not be
  404 (a final 404 ends as the not-found page before), and let it have a \<open>Content-Length\<close>.
  If \<open>Atoi\<close> cannot read the value, no size is enforced and the body is streamed with the
  length \<open>-1\<close>. If the value read exceeds \<open>SizeLimit * 1024 * 1024\<close>, the body is closed and the
  client gets the redirect 301 to the URL of the request that the response answers;
  nothing is streamed. The product is that of Go's \<open>int\<close>; for a ceiling from 0 to below
  \<open>2^43\<close> megabytes it does not wrap, and the comparison is the one of the integers.
\<close>

theorem finish_size_enforcement:
  assumes "resp_StatusCode r \<noteq> 404"
      and "header_Get (resp_Header r) ''Content-Length'' = contentLength"
      and "contentLength \<noteq> ''''"
  shows "(\<forall>err. Atoi E contentLength = Inl err \<longrightarrow>
            finish E cfg (n, r) s =
              s\<lparr>trace := trace s @ [SetHeaders (resp_Header r), Status (resp_StatusCode r),
                 SetBodyStream n (BandwidthLimit_Enabled cfg) (- 1)]\<rparr>) \<and>
         (\<forall>bodySize. Atoi E contentLength = Inr bodySize \<longrightarrow>
            (Server_SizeLimit cfg * 1024 * 1024 <s bodySize \<longrightarrow>
               finish E cfg (n, r) s =
                 s\<lparr>trace := trace s @
                    [Close n, Redirect 301 (url_String E (resp_Request_URL r))]\<rparr>) \<and>
            (0 \<le> sint (Server_SizeLimit cfg) \<and> sint (Server_SizeLimit cfg) < 2 ^ 43 \<longrightarrow>
               (Server_SizeLimit cfg * 1024 * 1024 <s bodySize) =
               (sint (Server_SizeLimit cfg) * 1024 * 1024 < sint bodySize)))"
proof (intro conjI allI impI)
  fix err assume "Atoi E contentLength = Inl err"
  with assms show "finish E cfg (n, r) s =
      s\<lparr>trace := trace s @ [SetHeaders (resp_Header r), Status (resp_StatusCode r),
         SetBodyStream n (BandwidthLimit_Enabled cfg) (- 1)]\<rparr>"
    by (intro finish_unparsable) auto
next
  fix bodySize
  assume "Atoi E contentLength = Inr bodySize" "Server_SizeLimit cfg * 1024 * 1024 <s bodySize"
  with assms show "finish E cfg (n, r) s =
      s\<lparr>trace := trace s @ [Close n, Redirect 301 (url_String E (resp_Request_URL r))]\<rparr>"
    by (intro finish_too_large) auto
next
  fix bodySize
  assume "0 \<le> sint (Server_SizeLimit cfg) \<and> sint (Server_SizeLimit cfg) < 2 ^ 43"
  then have "sint (Server_SizeLimit cfg * 1024 * 1024) = sint (Server_SizeLimit cfg) * 1024 * 1024"
    by (intro sizelimit_no_overflow) auto
  then show "(Server_SizeLimit cfg * 1024 * 1024 <s bodySize) =
             (sint (Server_SizeLimit cfg) * 1024 * 1024 < sint bodySize)"
    unfolding word_sless_alt by (rule arg_cong)
qed

theorem finish_size_enforcement_witness:
  "resp_StatusCode example_large \<noteq> 404 \<and>
   header_Get (resp_Header example_large) ''Content-Length'' = ''20971520'' \<and>
   Atoi example_env ''20971520'' = Inr 20971520 \<and>
   Server_SizeLimit example_config * 1024 * 1024 <s (20971520 :: 64 word) \<and>
   finish example_env example_config (0, example_large) example_state =
     example_state\<lparr>trace := [Close 0, Redirect 301 ''https://ghcr.io/v2/octo/cat/blobs/large'']\<rparr>"
  using finish_size_enforcement [where r = example_large and contentLength = "''20971520''"
      and E = example_env and cfg = example_config and n = 0 and s = example_state]
  by (simp add: example_defs header_Get_def)

text \<open>
  Claim C10. Let the final response reach the size check (its status is not 404). If it
  has no \<open>Content-Length\<close> header, then whatever the configuration and whatever the body, the
  header and status go to the client and the body is streamed with the length \<open>-1\<close>; the
  body is not closed and no redirect is sent. And the redirect 301 of the size check is
  sent only for a response with a \<open>Content-Length\<close> that \<open>Atoi\<close> reads and that exceeds the
  ceiling.
\<close>

theorem finish_without_Content_Length:
  assumes "resp_StatusCode r \<noteq> 404"
  shows "(resp_Header r ''Content-Length'' = None \<longrightarrow>
            finish E cfg (n, r) s =
              s\<lparr>trace := trace s @ [SetHeaders (resp_Header r), Status (resp_StatusCode r),
                 SetBodyStream n (BandwidthLimit_Enabled cfg) (- 1)]\<rparr>) \<and>
         ((\<exists>url. Redirect 301 url \<in> set (drop (length (trace s)) (trace (finish E cfg (n, r) s))))
            \<longrightarrow> (\<exists>bodySize. header_Get (resp_Header r) ''Content-Length'' \<noteq> '''' \<and>
                   Atoi E (header_Get (resp_Header r) ''Content-Length'') = Inr bodySize \<and>
                   Server_SizeLimit cfg * 1024 * 1024 <s bodySize))"
proof (intro conjI impI)
  assume "resp_Header r ''Content-Length'' = None"
  then have "header_Get (resp_Header r) ''Content-Length'' = ''''"
    by (rule header_Get_absent)
  with assms show "finish E cfg (n, r) s =
      s\<lparr>trace := trace s @ [SetHeaders (resp_Header r), Status (resp_StatusCode r),
         SetBodyStream n (BandwidthLimit_Enabled cfg) (- 1)]\<rparr>"
    by (rule finish_no_Content_Length)
next
  assume "\<exists>url. Redirect 301 url \<in> set (drop (length (trace s)) (trace (finish E cfg (n, r) s)))"
  then obtain url
    where "Redirect 301 url \<in> set (drop (length (trace s)) (trace (finish E cfg (n, r) s)))" ..
  with assms show "\<exists>bodySize. header_Get (resp_Header r) ''Content-Length'' \<noteq> '''' \<and>
      Atoi E (header_Get (resp_Header r) ''Content-Length'') = Inr bodySize \<and>
      Server_SizeLimit cfg * 1024 * 1024 <s bodySize"
    by (rule finish_Redirect_only_if)
qed

theorem finish_without_Content_Length_witness:
  "resp_StatusCode example_unsized \<noteq> 404 \<and>
   resp_Header example_unsized ''Content-Length'' = None \<and>
   finish example_env example_config (0, example_unsized) example_state =
     example_state\<lparr>trace := [SetHeaders Map.empty, Status 200, SetBodyStream 0 False (- 1)]\<rparr>"
  using finish_without_Content_Length [where r = example_unsized and E = example_env
      and cfg = example_config and n = 0 and s = example_state]
  by (simp add: example_defs)


end
